theory Spec2Isabelle
  imports Main "HOL-Library.AList"
begin

section \<open>Labelled arrays as the ensemble classes see them\<close>

text \<open>
  \<^verbatim>\<open>climpred/classes.py\<close> touches an xarray object through a handful of operations only:
  its dimension mapping (\<^verbatim>\<open>.dims\<close>), its data variables (\<^verbatim>\<open>.data_vars\<close>, \<^verbatim>\<open>len\<close>,
  \<^verbatim>\<open>ds[var]\<close>, \<^verbatim>\<open>ds.lead\<close>), \<^verbatim>\<open>rename\<close>, \<^verbatim>\<open>drop\<close> and \<^verbatim>\<open>to_dataset\<close>. A dataset is
  therefore a record of its dimension mapping (name and size, in the order the mapping
  lists them), of its coordinate variables and of its data variables (name and variable,
  in insertion order); together the last two are the \<^verbatim>\<open>variables\<close> of xarray. The numbers
  stored in a variable are of an arbitrary type \<open>'v\<close>: no function of the module looks at
  them. For a dimension without a coordinate variable xarray makes up the index
  \<open>0, ..., n - 1\<close> when asked for it.
\<close>

datatype 'v contents = Values 'v | Default_index nat

record 'v variable =
  var_dims :: "string list"
  var_data :: "'v contents"

record 'v dataarray =
  da_name :: "string option"
  da_dims :: "(string \<times> nat) list"
  da_coords :: "(string \<times> 'v variable) list"
  da_variable :: "'v variable"

record 'v dataset =
  dims :: "(string \<times> nat) list"
  coords :: "(string \<times> 'v variable) list"
  data_vars :: "(string \<times> 'v variable) list"

text \<open>What \<^verbatim>\<open>check_xarray\<close> lets into a method body: a DataArray or a Dataset.\<close>

datatype 'v xobj = DataArray "'v dataarray" | Dataset "'v dataset"

text \<open>
  The attributes \<^verbatim>\<open>control\<close> and \<^verbatim>\<open>uninitialized\<close> start as the empty dictionary
  \<^verbatim>\<open>{}\<close> and later hold a Dataset.
\<close>

datatype 'v slot = Empty_dict | Stored "'v dataset"

datatype dimension_report = Lead_and_init_required | Unmatched "string set"

text \<open>
  The exceptions. \<open>DimensionError\<close> carries which of the two messages it has and, for the
  second, the set interpolated into it; \<open>VariableError\<close> carries the two lists
  interpolated into its message.
\<close>

datatype error =
    DimensionError dimension_report
  | VariableError "string list" "string list"
  | DatasetError
  | ValueError
  | KeyError string
  | AttributeError
  | NotImplementedError

text \<open>What a \<^verbatim>\<open>compute_*\<close> method returns: one result, or a dictionary of results.\<close>

datatype 'r returned = Result 'r | Results "(string \<times> 'r) list"

definition dim_names :: "('v, 'z) dataset_scheme \<Rightarrow> string list" where
  "dim_names ds = map fst (dims ds)"

definition var_names :: "('v, 'z) dataset_scheme \<Rightarrow> string list" where
  "var_names ds = map fst (data_vars ds)"

definition coord_names :: "('v, 'z) dataset_scheme \<Rightarrow> string list" where
  "coord_names ds = map fst (coords ds)"

text \<open>The names of \<^verbatim>\<open>ds.variables\<close>: coordinates and data variables.\<close>

definition variable_names :: "('v, 'z) dataset_scheme \<Rightarrow> string list" where
  "variable_names ds = coord_names ds @ var_names ds"

text \<open>\<^verbatim>\<open>len(ds)\<close> counts the data variables; \<^verbatim>\<open>len({})\<close> is 0.\<close>

fun len :: "'v slot \<Rightarrow> nat" where
  "len Empty_dict = 0"
| "len (Stored ds) = length (data_vars ds)"

text \<open>
  \<^verbatim>\<open>DataArray.to_dataset()\<close> needs a name for the single variable: it raises ValueError
  on an unnamed array, and on an array named like one of its coordinates.
\<close>

definition to_dataset :: "'v dataarray \<Rightarrow> error + 'v dataset" where
  "to_dataset da =
     (case da_name da of
        None \<Rightarrow> Inl ValueError
      | Some n \<Rightarrow>
          if n \<in> set (map fst (da_coords da)) then Inl ValueError
          else Inr \<lparr>dims = da_dims da, coords = da_coords da,
                    data_vars = [(n, da_variable da)]\<rparr>)"

text \<open>
  The idiom opening the constructor and every \<^verbatim>\<open>add_*\<close> method:
  \<^verbatim>\<open>if isinstance(xobj, xr.DataArray): xobj = xobj.to_dataset()\<close>.
\<close>

fun promote :: "'v xobj \<Rightarrow> error + 'v dataset" where
  "promote (DataArray da) = to_dataset da"
| "promote (Dataset ds) = Inr ds"

text \<open>
  \<^verbatim>\<open>ds.rename({old: new})\<close> returns a new dataset (the receiver is not modified) in
  which the name is replaced wherever it stands: as a dimension, as a variable, and
  inside the dimensions of every variable. It raises ValueError when \<open>old\<close> is neither a
  variable nor a dimension (\<^verbatim>\<open>cannot rename\<close>), and when the dataset has a variable of
  the old name and another of the new name, which would then share a name (\<^verbatim>\<open>the new
  name conflicts\<close>).
\<close>

definition rename1 :: "string \<Rightarrow> string \<Rightarrow> string \<Rightarrow> string" where
  "rename1 old new d = (if d = old then new else d)"

definition rename_variables ::
  "string \<Rightarrow> string \<Rightarrow> (string \<times> 'v variable) list \<Rightarrow> (string \<times> 'v variable) list" where
  "rename_variables old new vs =
     map (\<lambda>(k, v). (rename1 old new k, v\<lparr>var_dims := map (rename1 old new) (var_dims v)\<rparr>)) vs"

definition rename :: "'v dataset \<Rightarrow> string \<Rightarrow> string \<Rightarrow> error + 'v dataset" where
  "rename ds old new =
     (if old \<notin> set (variable_names ds) \<and> old \<notin> set (dim_names ds) then Inl ValueError
      else if old \<noteq> new \<and> old \<in> set (variable_names ds) \<and> new \<in> set (variable_names ds)
      then Inl ValueError
      else Inr \<lparr>dims = map (\<lambda>(d, n). (rename1 old new d, n)) (dims ds),
                coords = rename_variables old new (coords ds),
                data_vars = rename_variables old new (data_vars ds)\<rparr>)"

text \<open>
  The dimension mapping xarray derives from a list of variables: the dimensions some
  variable has.
\<close>

definition calculate_dimensions ::
  "(string \<times> nat) list \<Rightarrow> (string \<times> 'v variable) list \<Rightarrow> (string \<times> nat) list" where
  "calculate_dimensions ds_dims variables =
     filter (\<lambda>(d, n). list_ex (\<lambda>(k, v). d \<in> set (var_dims v)) variables) ds_dims"

text \<open>
  \<^verbatim>\<open>ds.drop(labels)\<close> raises ValueError when a label is not a variable of the dataset.
  Otherwise it returns a new dataset, \<open>without\<close> the named variables, whose dimensions are
  those of the variables left.
\<close>

definition without :: "'v dataset \<Rightarrow> string list \<Rightarrow> 'v dataset" where
  "without ds labels =
     (let c = filter (\<lambda>(k, v). k \<notin> set labels) (coords ds);
          d = filter (\<lambda>(k, v). k \<notin> set labels) (data_vars ds)
      in \<lparr>dims = calculate_dimensions (dims ds) (c @ d), coords = c, data_vars = d\<rparr>)"

definition drop_vars :: "'v dataset \<Rightarrow> string list \<Rightarrow> error + 'v dataset" where
  "drop_vars ds labels =
     (if \<not> list_all (\<lambda>l. l \<in> set (variable_names ds)) labels then Inl ValueError
      else Inr (without ds labels))"

text \<open>
  \<^verbatim>\<open>ds[name]\<close> is the variable of that name as a DataArray, with the coordinates that
  lie along its dimensions; for a dimension without a coordinate variable it is the
  made-up index; for any other name it raises KeyError. (Names with a dot, which xarray
  reads as a component of a date coordinate, are left out.)
\<close>

definition along :: "string list \<Rightarrow> (string \<times> 'v variable) list \<Rightarrow> (string \<times> 'v variable) list"
  where
  "along ds_dims cs = filter (\<lambda>(k, c). list_all (\<lambda>d. d \<in> set ds_dims) (var_dims c)) cs"

definition getitem :: "'v dataset \<Rightarrow> string \<Rightarrow> error + 'v dataarray" where
  "getitem ds name =
     (case map_of (data_vars ds @ coords ds) name of
        Some v \<Rightarrow>
          Inr \<lparr>da_name = Some name,
               da_dims = filter (\<lambda>(d, n). d \<in> set (var_dims v)) (dims ds),
               da_coords = along (var_dims v) (coords ds),
               da_variable = v\<rparr>
      | None \<Rightarrow>
          (case map_of (dims ds) name of
             Some n \<Rightarrow>
               Inr \<lparr>da_name = Some name, da_dims = [(name, n)],
                    da_coords = along [name] (coords ds),
                    da_variable = \<lparr>var_dims = [name], var_data = Default_index n\<rparr>\<rparr>
           | None \<Rightarrow> Inl (KeyError name)))"

text \<open>
  \<^verbatim>\<open>ds.lead.size\<close>: \<^verbatim>\<open>ds.lead\<close> is \<^verbatim>\<open>ds['lead']\<close>, with AttributeError where that has
  KeyError; the size of an array is the product of the lengths of its dimensions.
\<close>

definition lead_size :: "'v dataset \<Rightarrow> error + nat" where
  "lead_size ds =
     (case getitem ds ''lead'' of
        Inl e \<Rightarrow> Inl AttributeError
      | Inr da \<Rightarrow> Inr (prod_list (map snd (da_dims da))))"

text \<open>Python's \<^verbatim>\<open>a ^ b\<close> on sets.\<close>

definition set_xor :: "'a set \<Rightarrow> 'a set \<Rightarrow> 'a set" where
  "set_xor A B = (A - B) \<union> (B - A)"

text \<open>\<^verbatim>\<open>xs.index(x)\<close> raises ValueError when \<open>x\<close> is not in the list.\<close>

fun index :: "'a list \<Rightarrow> 'a \<Rightarrow> error + nat" where
  "index [] x = Inl ValueError"
| "index (y # ys) x =
     (if y = x then Inr 0
      else case index ys x of Inl e \<Rightarrow> Inl e | Inr i \<Rightarrow> Inr (Suc i))"

text \<open>\<^verbatim>\<open>xs.pop(i)\<close>, as the list it leaves behind.\<close>

definition pop :: "'a list \<Rightarrow> nat \<Rightarrow> 'a list" where
  "pop xs i = take i xs @ drop (Suc i) xs"


section \<open>The checks\<close>

definition check_prediction_ensemble_dimensions :: "'v dataset \<Rightarrow> error + unit" where
  "check_prediction_ensemble_dimensions xobj =
     (let cond = list_all (\<lambda>d. d \<in> set (dim_names xobj)) [''init'', ''lead'']
      in if \<not> cond then Inl (DimensionError Lead_and_init_required) else Inr ())"

definition check_reference_dimensions :: "'v dataset \<Rightarrow> 'v dataset \<Rightarrow> error + unit" where
  "check_reference_dimensions init ref =
     (case rename init ''init'' ''time'' of
        Inl e \<Rightarrow> Inl e
      | Inr init' \<Rightarrow>
          (let init_dims = dim_names init';
               init_dims = (if ''lead'' \<in> set init_dims
                            then remove1 ''lead'' init_dims else init_dims);
               init_dims = (if ''member'' \<in> set init_dims
                            then remove1 ''member'' init_dims else init_dims)
           in if \<not> (set (dim_names ref) = set init_dims)
              then (let unmatch_dims = set_xor (set (dim_names ref)) (set init_dims)
                    in Inl (DimensionError (Unmatched unmatch_dims)))
              else Inr ()))"

definition check_reference_vars_match_initialized ::
  "'v dataset \<Rightarrow> 'v dataset \<Rightarrow> error + unit" where
  "check_reference_vars_match_initialized init ref =
     (let init_vars = var_names init;
          ref_vars = var_names ref
      in if set init_vars \<inter> set ref_vars = {}
         then Inl (VariableError init_vars ref_vars)
         else Inr ())"


section \<open>The classes\<close>

text \<open>
  The external engines (\<^verbatim>\<open>compute_perfect_model\<close>, \<^verbatim>\<open>compute_hindcast\<close>,
  \<^verbatim>\<open>compute_uninitialized\<close>, \<^verbatim>\<open>compute_persistence\<close>, \<^verbatim>\<open>bootstrap_perfect_model\<close>) live in
  other modules. Every method that calls one takes it as its first argument: a function
  from the arguments of the call to a result of an arbitrary type \<open>'r\<close>, or to the
  exception the engine raised.
\<close>

record 'v PredictionEnsemble =
  initialized :: "'v dataset"
  uninitialized :: "'v slot"

record 'v PerfectModelEnsemble = "'v PredictionEnsemble" +
  control :: "'v slot"

record 'v HindcastEnsemble = "'v PredictionEnsemble" +
  reference :: "(string \<times> 'v dataset) list"

text \<open>
  A result as the value of a method that returns exactly what the engine gave it.
\<close>

fun single :: "error + 'r \<Rightarrow> error + 'r returned" where
  "single (Inl e) = Inl e"
| "single (Inr r) = Inr (Result r)"

text \<open>
  The loops \<^verbatim>\<open>for key in ...: d[key] = f(key)\<close> that fill a dictionary: the keys are
  visited in order, the first exception ends the loop, and an assignment to a key
  already there replaces its value.
\<close>

fun collect ::
  "(string \<Rightarrow> error + 'r) \<Rightarrow> string list \<Rightarrow> (string \<times> 'r) list \<Rightarrow> error + (string \<times> 'r) list"
where
  "collect f [] d = Inr d"
| "collect f (key # keys) d =
     (case f key of Inl e \<Rightarrow> Inl e | Inr r \<Rightarrow> collect f keys (AList.update key r d))"

definition results :: "error + (string \<times> 'r) list \<Rightarrow> error + 'r returned" where
  "results x = (case x of Inl e \<Rightarrow> Inl e | Inr d \<Rightarrow> Inr (Results d))"

subsection \<open>PredictionEnsemble\<close>

definition PredictionEnsemble_init :: "'v xobj \<Rightarrow> error + 'v PredictionEnsemble" where
  "PredictionEnsemble_init xobj =
     (case promote xobj of
        Inl e \<Rightarrow> Inl e
      | Inr xobj \<Rightarrow>
          (case check_prediction_ensemble_dimensions xobj of
             Inl e \<Rightarrow> Inl e
           | Inr _ \<Rightarrow> Inr \<lparr>initialized = xobj, uninitialized = Empty_dict\<rparr>))"

subsection \<open>PerfectModelEnsemble\<close>

definition PerfectModelEnsemble_init :: "'v xobj \<Rightarrow> error + 'v PerfectModelEnsemble" where
  "PerfectModelEnsemble_init xobj =
     (case PredictionEnsemble_init xobj of
        Inl e \<Rightarrow> Inl e
      | Inr self \<Rightarrow>
          Inr \<lparr>initialized = initialized self, uninitialized = uninitialized self,
               control = Empty_dict\<rparr>)"

text \<open>
  A method that assigns to an attribute returns what Python returns (\<open>None\<close>, or the
  exception) together with the object as the call leaves it.
\<close>

definition add_control ::
  "'v PerfectModelEnsemble \<Rightarrow> 'v xobj \<Rightarrow> (error + unit) \<times> 'v PerfectModelEnsemble" where
  "add_control self xobj =
     (case promote xobj of
        Inl e \<Rightarrow> (Inl e, self)
      | Inr xobj \<Rightarrow>
          (case check_reference_dimensions (initialized self) xobj of
             Inl e \<Rightarrow> (Inl e, self)
           | Inr _ \<Rightarrow>
               (case check_reference_vars_match_initialized (initialized self) xobj of
                  Inl e \<Rightarrow> (Inl e, self)
                | Inr _ \<Rightarrow> (Inr (), self\<lparr>control := Stored xobj\<rparr>))))"

definition pm_compute_metric ::
  "('v dataset \<Rightarrow> 'v slot \<Rightarrow> string \<Rightarrow> string \<Rightarrow> error + 'r) \<Rightarrow>
   'v PerfectModelEnsemble \<Rightarrow> string \<Rightarrow> string \<Rightarrow> error + 'r" where
  "pm_compute_metric compute_perfect_model self metric comparison =
     (if len (control self) = 0 then Inl DatasetError
      else compute_perfect_model (initialized self) (control self) metric comparison)"

definition pm_compute_uninitialized ::
  "('v dataset \<Rightarrow> 'v slot \<Rightarrow> string \<Rightarrow> string \<Rightarrow> error + 'r) \<Rightarrow>
   'v PerfectModelEnsemble \<Rightarrow> string \<Rightarrow> string \<Rightarrow> error + 'r" where
  "pm_compute_uninitialized compute_perfect_model self metric comparison =
     (case uninitialized self of
        Empty_dict \<Rightarrow> Inl DatasetError
      | Stored uninit \<Rightarrow>
          if length (data_vars uninit) = 0 then Inl DatasetError
          else compute_perfect_model uninit (control self) metric comparison)"

definition pm_compute_persistence ::
  "('v dataset \<Rightarrow> 'v slot \<Rightarrow> string \<Rightarrow> error + 'r) \<Rightarrow>
   'v PerfectModelEnsemble \<Rightarrow> nat option \<Rightarrow> string \<Rightarrow> error + 'r" where
  "pm_compute_persistence compute_persistence self nlags metric =
     (if len (control self) = 0 then Inl DatasetError
      else case (case nlags of None \<Rightarrow> lead_size (initialized self) | Some n \<Rightarrow> Inr n) of
             Inl e \<Rightarrow> Inl e
           | Inr nlags \<Rightarrow> compute_persistence (initialized self) (control self) metric)"

text \<open>
  One call of \<^verbatim>\<open>bootstrap_perfect_model(self.initialized[var], self.control[var], ...)\<close>;
  the arguments are evaluated from left to right.
\<close>

definition bootstrap_var ::
  "('v dataarray \<Rightarrow> 'v dataarray \<Rightarrow> string \<Rightarrow> string \<Rightarrow> int \<Rightarrow> int \<Rightarrow> int option \<Rightarrow> error + 'r) \<Rightarrow>
   'v dataset \<Rightarrow> 'v dataset \<Rightarrow> string \<Rightarrow> string \<Rightarrow> int \<Rightarrow> int \<Rightarrow> int option \<Rightarrow>
   string \<Rightarrow> error + 'r" where
  "bootstrap_var bootstrap_perfect_model init ctrl metric comparison sig iterations pers_sig var =
     (case getitem init var of
        Inl e \<Rightarrow> Inl e
      | Inr i \<Rightarrow>
          (case getitem ctrl var of
             Inl e \<Rightarrow> Inl e
           | Inr c \<Rightarrow> bootstrap_perfect_model i c metric comparison sig iterations pers_sig))"

definition bootstrap ::
  "('v dataarray \<Rightarrow> 'v dataarray \<Rightarrow> string \<Rightarrow> string \<Rightarrow> int \<Rightarrow> int \<Rightarrow> int option \<Rightarrow> error + 'r) \<Rightarrow>
   'v PerfectModelEnsemble \<Rightarrow> string option \<Rightarrow> string \<Rightarrow> string \<Rightarrow> int \<Rightarrow> int \<Rightarrow>
   int option \<Rightarrow> error + 'r returned" where
  "bootstrap bootstrap_perfect_model self var metric comparison sig iterations pers_sig =
     (case control self of
        Empty_dict \<Rightarrow> Inl DatasetError
      | Stored ctrl \<Rightarrow>
          if length (data_vars ctrl) = 0 then Inl DatasetError
          else
            (let run = bootstrap_var bootstrap_perfect_model (initialized self) ctrl
                         metric comparison sig iterations pers_sig
             in case var of
                  Some var \<Rightarrow> single (run var)
                | None \<Rightarrow>
                    if length (data_vars (initialized self)) = 1
                    then single (run (last (var_names (initialized self))))
                    else results (collect run (var_names ctrl) [])))"

subsection \<open>HindcastEnsemble\<close>

definition HindcastEnsemble_init :: "'v xobj \<Rightarrow> error + 'v HindcastEnsemble" where
  "HindcastEnsemble_init xobj =
     (case PredictionEnsemble_init xobj of
        Inl e \<Rightarrow> Inl e
      | Inr self \<Rightarrow>
          Inr \<lparr>initialized = initialized self, uninitialized = uninitialized self,
               reference = []\<rparr>)"

text \<open>
  The loop of \<^verbatim>\<open>_vars_to_drop\<close> runs over a Python set, whose iteration order is not
  specified. Its first argument here is the sequence in which the elements come.
\<close>

fun pop_common ::
  "string list \<Rightarrow> string list \<Rightarrow> string list \<Rightarrow> error + string list \<times> string list" where
  "pop_common [] init_vars ref_vars = Inr (init_vars, ref_vars)"
| "pop_common (var # rest) init_vars ref_vars =
     (case index init_vars var of
        Inl e \<Rightarrow> Inl e
      | Inr idx \<Rightarrow>
          (let init_vars = pop init_vars idx
           in case index ref_vars var of
                Inl e \<Rightarrow> Inl e
              | Inr idx \<Rightarrow> pop_common rest init_vars (pop ref_vars idx)))"

text \<open>
  \<open>iter\<close> gives, for a set, the sequence in which Python iterates over it.
  \<^verbatim>\<open>self.uninitialized.data_vars\<close> on the empty dictionary is an AttributeError,
  \<^verbatim>\<open>self.reference[ref]\<close> on an unknown name a KeyError.
\<close>

definition vars_to_drop ::
  "(string set \<Rightarrow> string list) \<Rightarrow> 'v HindcastEnsemble \<Rightarrow> string \<Rightarrow> bool \<Rightarrow>
   error + string list \<times> string list" where
  "vars_to_drop iter self ref init =
     (case (if init then Inr (var_names (initialized self))
            else case uninitialized self of
                   Empty_dict \<Rightarrow> Inl AttributeError
                 | Stored uninit \<Rightarrow> Inr (var_names uninit)) of
        Inl e \<Rightarrow> Inl e
      | Inr init_vars \<Rightarrow>
          (case map_of (reference self) ref of
             None \<Rightarrow> Inl (KeyError ref)
           | Some r \<Rightarrow>
               (let ref_vars = var_names r;
                    intersect = set ref_vars \<inter> set init_vars
                in pop_common (iter intersect) init_vars ref_vars)))"

definition add_reference ::
  "'v HindcastEnsemble \<Rightarrow> 'v xobj \<Rightarrow> string \<Rightarrow> (error + unit) \<times> 'v HindcastEnsemble" where
  "add_reference self xobj name =
     (case promote xobj of
        Inl e \<Rightarrow> (Inl e, self)
      | Inr xobj \<Rightarrow>
          (case check_reference_dimensions (initialized self) xobj of
             Inl e \<Rightarrow> (Inl e, self)
           | Inr _ \<Rightarrow>
               (case check_reference_vars_match_initialized (initialized self) xobj of
                  Inl e \<Rightarrow> (Inl e, self)
                | Inr _ \<Rightarrow>
                    (Inr (), self\<lparr>reference := AList.update name xobj (reference self)\<rparr>))))"

definition add_uninitialized ::
  "'v HindcastEnsemble \<Rightarrow> 'v xobj \<Rightarrow> (error + unit) \<times> 'v HindcastEnsemble" where
  "add_uninitialized self xobj =
     (case promote xobj of
        Inl e \<Rightarrow> (Inl e, self)
      | Inr xobj \<Rightarrow>
          (case check_reference_dimensions (initialized self) xobj of
             Inl e \<Rightarrow> (Inl e, self)
           | Inr _ \<Rightarrow>
               (case check_reference_vars_match_initialized (initialized self) xobj of
                  Inl e \<Rightarrow> (Inl e, self)
                | Inr _ \<Rightarrow> (Inr (), self\<lparr>uninitialized := Stored xobj\<rparr>))))"

text \<open>
  The body shared by the three branches of \<^verbatim>\<open>compute_metric\<close>: the drop lists for one
  reference, then \<^verbatim>\<open>compute_hindcast\<close> on the two datasets without those variables.
\<close>

definition metric_for ::
  "(string set \<Rightarrow> string list) \<Rightarrow>
   ('v dataset \<Rightarrow> 'v dataset \<Rightarrow> string \<Rightarrow> string \<Rightarrow> error + 'r) \<Rightarrow>
   'v HindcastEnsemble \<Rightarrow> string \<Rightarrow> string \<Rightarrow> string \<Rightarrow> error + 'r" where
  "metric_for iter compute_hindcast self metric comparison refname =
     (case vars_to_drop iter self refname True of
        Inl e \<Rightarrow> Inl e
      | Inr (drop_init, drop_ref) \<Rightarrow>
          (case drop_vars (initialized self) drop_init of
             Inl e \<Rightarrow> Inl e
           | Inr i \<Rightarrow>
               (case map_of (reference self) refname of
                  None \<Rightarrow> Inl (KeyError refname)
                | Some r \<Rightarrow>
                    (case drop_vars r drop_ref of
                       Inl e \<Rightarrow> Inl e
                     | Inr r \<Rightarrow> compute_hindcast i r metric comparison))))"

definition hc_compute_metric ::
  "(string set \<Rightarrow> string list) \<Rightarrow>
   ('v dataset \<Rightarrow> 'v dataset \<Rightarrow> string \<Rightarrow> string \<Rightarrow> error + 'r) \<Rightarrow>
   'v HindcastEnsemble \<Rightarrow> string option \<Rightarrow> string \<Rightarrow> string \<Rightarrow> error + 'r returned" where
  "hc_compute_metric iter compute_hindcast self refname metric comparison =
     (if length (reference self) = 0 then Inl DatasetError
      else
        (let run = metric_for iter compute_hindcast self metric comparison
         in case refname of
              Some refname \<Rightarrow> single (run refname)
            | None \<Rightarrow>
                if length (reference self) = 1
                then (let refname = hd (map fst (reference self)) in single (run refname))
                else results (collect run (map fst (reference self)) [])))"

text \<open>
  The same for \<^verbatim>\<open>compute_uninitialized\<close>, with the drop lists taken against the
  uninitialized dataset.
\<close>

definition uninitialized_for ::
  "(string set \<Rightarrow> string list) \<Rightarrow>
   ('v dataset \<Rightarrow> 'v dataset \<Rightarrow> string \<Rightarrow> string \<Rightarrow> error + 'r) \<Rightarrow>
   'v HindcastEnsemble \<Rightarrow> 'v dataset \<Rightarrow> string \<Rightarrow> string \<Rightarrow> string \<Rightarrow> error + 'r" where
  "uninitialized_for iter compute_uninitialized self uninit metric comparison refname =
     (case vars_to_drop iter self refname False of
        Inl e \<Rightarrow> Inl e
      | Inr (drop_un, drop_ref) \<Rightarrow>
          (case drop_vars uninit drop_un of
             Inl e \<Rightarrow> Inl e
           | Inr u \<Rightarrow>
               (case map_of (reference self) refname of
                  None \<Rightarrow> Inl (KeyError refname)
                | Some r \<Rightarrow>
                    (case drop_vars r drop_ref of
                       Inl e \<Rightarrow> Inl e
                     | Inr r \<Rightarrow> compute_uninitialized u r metric comparison))))"

definition hc_compute_uninitialized ::
  "(string set \<Rightarrow> string list) \<Rightarrow>
   ('v dataset \<Rightarrow> 'v dataset \<Rightarrow> string \<Rightarrow> string \<Rightarrow> error + 'r) \<Rightarrow>
   'v HindcastEnsemble \<Rightarrow> string option \<Rightarrow> string \<Rightarrow> string \<Rightarrow> error + 'r returned" where
  "hc_compute_uninitialized iter compute_uninitialized self refname metric comparison =
     (case uninitialized self of
        Empty_dict \<Rightarrow> Inl DatasetError
      | Stored uninit \<Rightarrow>
          if length (data_vars uninit) = 0 then Inl DatasetError
          else
            (let run = uninitialized_for iter compute_uninitialized self uninit
                         metric comparison
             in case refname of
                  Some refname \<Rightarrow> single (run refname)
                | None \<Rightarrow>
                    if length (reference self) = 1
                    then (let refname = hd (map fst (reference self))
                          in single (run refname))
                    else results (collect run (map fst (reference self)) [])))"

text \<open>
  One call of \<^verbatim>\<open>compute_persistence(self.initialized, self.reference[key], metric=metric)\<close>.
\<close>

definition persistence_for ::
  "('v dataset \<Rightarrow> 'v slot \<Rightarrow> string \<Rightarrow> error + 'r) \<Rightarrow>
   'v HindcastEnsemble \<Rightarrow> string \<Rightarrow> string \<Rightarrow> error + 'r" where
  "persistence_for compute_persistence self metric refname =
     (case map_of (reference self) refname of
        None \<Rightarrow> Inl (KeyError refname)
      | Some r \<Rightarrow> compute_persistence (initialized self) (Stored r) metric)"

definition hc_compute_persistence ::
  "('v dataset \<Rightarrow> 'v slot \<Rightarrow> string \<Rightarrow> error + 'r) \<Rightarrow>
   'v HindcastEnsemble \<Rightarrow> string option \<Rightarrow> nat option \<Rightarrow> string \<Rightarrow> error + 'r returned" where
  "hc_compute_persistence compute_persistence self refname nlags metric =
     (if length (reference self) = 0 then Inl DatasetError
      else case (case nlags of None \<Rightarrow> lead_size (initialized self) | Some n \<Rightarrow> Inr n) of
             Inl e \<Rightarrow> Inl e
           | Inr nlags \<Rightarrow>
               (let run = persistence_for compute_persistence self metric
                in case refname of
                     Some refname \<Rightarrow> single (run refname)
                   | None \<Rightarrow> results (collect run (map fst (reference self)) [])))"

definition compute_horizon :: "'v HindcastEnsemble \<Rightarrow> string option \<Rightarrow> error + 'r" where
  "compute_horizon self refname = Inl NotImplementedError"


section \<open>Words of the specification\<close>

text \<open>
  The dimensions a control, a reference or an uninitialized dataset has to have, in the
  words of the specification: those of the initialized dataset with \<open>init\<close> renamed to
  \<open>time\<close>, without \<open>lead\<close> and \<open>member\<close>.
\<close>

definition wanted_dims :: "'v dataset \<Rightarrow> string set" where
  "wanted_dims init = rename1 ''init'' ''time'' ` set (dim_names init) - {''lead'', ''member''}"

text \<open>An enumeration of a set as Python's iteration may give it: every element once.\<close>

definition enumerates :: "'a list \<Rightarrow> 'a set \<Rightarrow> bool" where
  "enumerates xs S \<longleftrightarrow> distinct xs \<and> set xs = S"


section \<open>Sample data\<close>

text \<open>
  A hindcast of two variables over \<open>init\<close>, \<open>lead\<close> and \<open>member\<close>, and datasets over
  \<open>time\<close> to go with it; the stored numbers play no role and are of type \<open>unit\<close>.
\<close>

definition forecast_var :: "unit variable" where
  "forecast_var = \<lparr>var_dims = [''init'', ''lead'', ''member''], var_data = Values ()\<rparr>"

definition series_var :: "unit variable" where
  "series_var = \<lparr>var_dims = [''time''], var_data = Values ()\<rparr>"

text \<open>The coordinate variable of a dimension.\<close>

definition index_var :: "string \<Rightarrow> unit variable" where
  "index_var d = \<lparr>var_dims = [d], var_data = Values ()\<rparr>"

definition forecast_coords :: "(string \<times> unit variable) list" where
  "forecast_coords = [(''init'', index_var ''init''), (''lead'', index_var ''lead''),
                      (''member'', index_var ''member'')]"

definition hindcast :: "unit dataset" where
  "hindcast = \<lparr>dims = [(''init'', 3), (''lead'', 2), (''member'', 4)],
               coords = forecast_coords,
               data_vars = [(''SST'', forecast_var), (''SALT'', forecast_var)]\<rparr>"

definition hindcast_sst :: "unit dataset" where
  "hindcast_sst = \<lparr>dims = [(''init'', 3), (''lead'', 2), (''member'', 4)],
                   coords = forecast_coords,
                   data_vars = [(''SST'', forecast_var)]\<rparr>"

text \<open>
  The same hindcast carrying, beside its coordinate \<open>init\<close>, the date each forecast is
  valid for as a coordinate \<open>time\<close> over \<open>init\<close> and \<open>lead\<close>.
\<close>

definition dated_hindcast :: "unit dataset" where
  "dated_hindcast = \<lparr>dims = [(''init'', 3), (''lead'', 2), (''member'', 4)],
                     coords = forecast_coords
                              @ [(''time'', \<lparr>var_dims = [''init'', ''lead''], var_data = Values ()\<rparr>)],
                     data_vars = [(''SST'', forecast_var)]\<rparr>"

definition without_lead :: "unit dataset" where
  "without_lead = \<lparr>dims = [(''init'', 3), (''member'', 4)],
                   coords = [(''init'', index_var ''init''), (''member'', index_var ''member'')],
                   data_vars = [(''SST'', \<lparr>var_dims = [''init'', ''member''],
                                          var_data = Values ()\<rparr>)]\<rparr>"

definition observations :: "unit dataset" where
  "observations = \<lparr>dims = [(''time'', 5)], coords = [(''time'', index_var ''time'')],
                   data_vars = [(''SST'', series_var)]\<rparr>"

definition reconstruction :: "unit dataset" where
  "reconstruction = \<lparr>dims = [(''time'', 5)], coords = [(''time'', index_var ''time'')],
                     data_vars = [(''SALT'', series_var), (''SST'', series_var)]\<rparr>"

definition control_run :: "unit dataset" where
  "control_run = \<lparr>dims = [(''time'', 5)], coords = [(''time'', index_var ''time'')],
                  data_vars = [(''SST'', series_var), (''TEMP'', series_var)]\<rparr>"

definition profile :: "unit dataset" where
  "profile = \<lparr>dims = [(''time'', 5), (''depth'', 7)],
              coords = [(''time'', index_var ''time''), (''depth'', index_var ''depth'')],
              data_vars = [(''SST'', \<lparr>var_dims = [''time'', ''depth''],
                                     var_data = Values ()\<rparr>)]\<rparr>"

definition winds :: "unit dataset" where
  "winds = \<lparr>dims = [(''time'', 5)], coords = [(''time'', index_var ''time'')],
            data_vars = [(''TAUX'', series_var)]\<rparr>"

text \<open>An iteration order for sets of these names: the order of a fixed listing.\<close>

definition listed :: "string set \<Rightarrow> string list" where
  "listed S = filter (\<lambda>v. v \<in> S) [''TEMP'', ''SST'', ''SALT'', ''TAUX'']"

text \<open>An engine that returns the variable names of the two datasets it was given.\<close>

definition seen :: "unit dataset \<Rightarrow> unit dataset \<Rightarrow> string \<Rightarrow> string \<Rightarrow> error + string list \<times> string list"
  where
  "seen a b metric comparison = Inr (var_names a, var_names b)"


section \<open>The dimension check\<close>



lemma remove1_map_fix:
  assumes "\<And>y. (f y = x) = (y = x)"
  shows "remove1 x (map f xs) = map f (remove1 x xs)"
proof (induction xs)
  case Nil
  show ?case by simp
next
  case (Cons a xs)
  show ?case
  proof (cases "a = x")
    case True
    then have "f a = x" using assms by simp
    then show ?thesis using True by simp
  next
    case False
    then have "f a \<noteq> x" using assms by simp
    then show ?thesis using False Cons.IH by simp
  qed
qed


lemma rename1_keeps:
  "x \<noteq> old \<Longrightarrow> x \<noteq> new \<Longrightarrow> (rename1 old new y = x) = (y = x)"
  by (simp add: rename1_def)

lemma image_diff_fix:
  assumes "\<And>y. (f y = a) = (y = a)" "\<And>y. (f y = b) = (y = b)"
  shows "f ` (S - {a, b}) = f ` S - {a, b}"
proof (intro set_eqI iffI)
  fix z assume "z \<in> f ` (S - {a, b})"
  then obtain y where y: "y \<in> S" "y \<noteq> a" "y \<noteq> b" "z = f y" by blast
  then have "z \<noteq> a" "z \<noteq> b" using assms by simp_all
  then show "z \<in> f ` S - {a, b}" using y by blast
next
  fix z assume "z \<in> f ` S - {a, b}"
  then obtain y where y: "y \<in> S" "z = f y" "z \<noteq> a" "z \<noteq> b" by blast
  then have "y \<noteq> a" "y \<noteq> b" using assms by auto
  then show "z \<in> f ` (S - {a, b})" using y by blast
qed

lemma removal_general:
  assumes "distinct xs" "\<And>y. (f y = a) = (y = a)" "\<And>y. (f y = b) = (y = b)"
  shows "set (remove1 b (remove1 a (map f xs))) = f ` set xs - {a, b}"
proof -
  have "remove1 b (remove1 a (map f xs)) = map f (remove1 b (remove1 a xs))"
    by (simp only: remove1_map_fix [of f, OF assms(2)] remove1_map_fix [of f, OF assms(3)])
  moreover have "set (remove1 b (remove1 a xs)) = set xs - {a, b}"
    using assms(1) by (simp only: set_remove1_eq distinct_remove1) blast
  ultimately show ?thesis
    by (simp only: set_map image_diff_fix [of f, OF assms(2,3)])
qed

lemma dims_after_removal:
  assumes "distinct xs"
  shows "set (remove1 ''member'' (remove1 ''lead'' (map (rename1 ''init'' ''time'') xs)))
         = rename1 ''init'' ''time'' ` set xs - {''lead'', ''member''}"
proof (rule removal_general [OF assms])
  show "\<And>y. (rename1 ''init'' ''time'' y = ''lead'') = (y = ''lead'')"
    by (rule rename1_keeps) simp_all
  show "\<And>y. (rename1 ''init'' ''time'' y = ''member'') = (y = ''member'')"
    by (rule rename1_keeps) simp_all
qed

lemma rename_without_clash:
  assumes "old \<in> set (dim_names init)"
    and "\<not> (old \<in> set (variable_names init) \<and> new \<in> set (variable_names init))"
  shows "\<exists>init'. rename init old new = Inr init'
           \<and> dim_names init' = map (rename1 old new) (dim_names init)"
  using assms by (auto simp: rename_def dim_names_def)

lemma rename_clash:
  assumes "old \<noteq> new" and "old \<in> set (variable_names init)"
    and "new \<in> set (variable_names init)"
  shows "rename init old new = Inl ValueError"
  using assms by (simp add: rename_def)

lemma guarded_remove1: "(if x \<in> set l then remove1 x l else l) = remove1 x l"
  by (simp add: remove1_idem)

lemma check_reference_dimensions_eq:
  assumes "''init'' \<in> set (dim_names init)" "distinct (dim_names init)"
    and "\<not> (''init'' \<in> set (variable_names init) \<and> ''time'' \<in> set (variable_names init))"
  shows "check_reference_dimensions init ref =
         (if set (dim_names ref) = wanted_dims init then Inr ()
          else Inl (DimensionError (Unmatched (set_xor (set (dim_names ref)) (wanted_dims init)))))"
proof -
  obtain init' where r: "rename init ''init'' ''time'' = Inr init'"
    and d: "dim_names init' = map (rename1 ''init'' ''time'') (dim_names init)"
    using rename_without_clash [OF assms(1,3)] by blast
  have s: "set (remove1 ''member'' (remove1 ''lead'' (dim_names init')))
           = rename1 ''init'' ''time'' ` set (dim_names init) - {''lead'', ''member''}"
    unfolding d by (rule dims_after_removal [OF assms(2)])
  show ?thesis
    unfolding check_reference_dimensions_def Let_def guarded_remove1 wanted_dims_def
    by (simp only: r s sum.case if_not_P split: if_split) simp
qed

lemma check_reference_dimensions_clash:
  assumes "''init'' \<in> set (variable_names init)" and "''time'' \<in> set (variable_names init)"
  shows "check_reference_dimensions init ref = Inl ValueError"
proof -
  have "rename init ''init'' ''time'' = Inl ValueError"
    using assms by (intro rename_clash) simp_all
  then show ?thesis by (simp add: check_reference_dimensions_def)
qed

lemma check_vars_not_dimension:
  "check_reference_vars_match_initialized init ref \<noteq> Inl (DimensionError r)"
  by (simp add: check_reference_vars_match_initialized_def Let_def)

lemma check_dims_not_variable:
  "check_reference_dimensions init ref \<noteq> Inl (VariableError a b)"
  by (simp add: check_reference_dimensions_def rename_def Let_def split: sum.splits)

lemma fst_add_control:
  "fst (add_control self (Dataset ds)) =
     (case check_reference_dimensions (initialized self) ds of
        Inl e \<Rightarrow> Inl e
      | Inr u \<Rightarrow> check_reference_vars_match_initialized (initialized self) ds)"
  by (simp add: add_control_def split: sum.splits)

lemma fst_add_reference:
  "fst (add_reference self (Dataset ds) name) =
     (case check_reference_dimensions (initialized self) ds of
        Inl e \<Rightarrow> Inl e
      | Inr u \<Rightarrow> check_reference_vars_match_initialized (initialized self) ds)"
  by (simp add: add_reference_def split: sum.splits)

lemma fst_add_uninitialized:
  "fst (add_uninitialized self (Dataset ds)) =
     (case check_reference_dimensions (initialized self) ds of
        Inl e \<Rightarrow> Inl e
      | Inr u \<Rightarrow> check_reference_vars_match_initialized (initialized self) ds)"
  by (simp add: add_uninitialized_def split: sum.splits)

lemma dimension_error_from_check:
  "((case check_reference_dimensions init ds of
        Inl e \<Rightarrow> Inl e
      | Inr u \<Rightarrow> check_reference_vars_match_initialized init ds) = Inl (DimensionError r))
   = (check_reference_dimensions init ds = Inl (DimensionError r))"
  by (cases "check_reference_dimensions init ds") (simp_all add: check_vars_not_dimension)

text \<open>
  What the dimension check does on an initialized dataset that has the dimension \<open>init\<close>
  (its dimension names, keys of a mapping, being pairwise different) and does not have a
  variable \<open>init\<close> beside a variable \<open>time\<close>: for every candidate dataset it raises
  \<open>DimensionError\<close> exactly when the candidate's dimension set differs from the
  initialized one after renaming \<open>init\<close> to \<open>time\<close> and removing \<open>lead\<close> and \<open>member\<close>; the
  set the error reports is the symmetric difference of the two; and \<^verbatim>\<open>add_control\<close>,
  \<^verbatim>\<open>add_reference\<close> and \<^verbatim>\<open>add_uninitialized\<close> raise that error exactly when the check does.
\<close>

lemma reference_dimensions_checked_without_clash:
  assumes "''init'' \<in> set (dim_names init)" and "distinct (dim_names init)"
    and "\<not> (''init'' \<in> set (variable_names init) \<and> ''time'' \<in> set (variable_names init))"
  shows "((\<exists>r. check_reference_dimensions init ref = Inl (DimensionError r))
            \<longleftrightarrow> set (dim_names ref) \<noteq> wanted_dims init)
       \<and> (set (dim_names ref) \<noteq> wanted_dims init \<longrightarrow>
            check_reference_dimensions init ref =
              Inl (DimensionError (Unmatched (set_xor (set (dim_names ref)) (wanted_dims init)))))
       \<and> (set (dim_names ref) = wanted_dims init \<longrightarrow> check_reference_dimensions init ref = Inr ())
       \<and> (\<forall>pm r. initialized pm = init \<longrightarrow>
            (fst (add_control pm (Dataset ref)) = Inl (DimensionError r)
               \<longleftrightarrow> check_reference_dimensions init ref = Inl (DimensionError r)))
       \<and> (\<forall>hc name r. initialized hc = init \<longrightarrow>
            (fst (add_reference hc (Dataset ref) name) = Inl (DimensionError r)
               \<longleftrightarrow> check_reference_dimensions init ref = Inl (DimensionError r)))
       \<and> (\<forall>hc r. initialized hc = init \<longrightarrow>
            (fst (add_uninitialized hc (Dataset ref)) = Inl (DimensionError r)
               \<longleftrightarrow> check_reference_dimensions init ref = Inl (DimensionError r)))"
proof -
  note eq = check_reference_dimensions_eq [OF assms, of ref]
  have a: "(\<exists>r. check_reference_dimensions init ref = Inl (DimensionError r))
            \<longleftrightarrow> set (dim_names ref) \<noteq> wanted_dims init"
    unfolding eq by simp
  have b: "set (dim_names ref) \<noteq> wanted_dims init \<longrightarrow>
            check_reference_dimensions init ref =
              Inl (DimensionError (Unmatched (set_xor (set (dim_names ref)) (wanted_dims init))))"
    unfolding eq by simp
  have c: "set (dim_names ref) = wanted_dims init \<longrightarrow> check_reference_dimensions init ref = Inr ()"
    unfolding eq by simp
  have d: "\<forall>pm r. initialized pm = init \<longrightarrow>
            (fst (add_control pm (Dataset ref)) = Inl (DimensionError r)
               \<longleftrightarrow> check_reference_dimensions init ref = Inl (DimensionError r))"
    by (simp only: fst_add_control dimension_error_from_check) simp
  have e: "\<forall>hc name r. initialized hc = init \<longrightarrow>
            (fst (add_reference hc (Dataset ref) name) = Inl (DimensionError r)
               \<longleftrightarrow> check_reference_dimensions init ref = Inl (DimensionError r))"
    by (simp only: fst_add_reference dimension_error_from_check) simp
  have f: "\<forall>hc r. initialized hc = init \<longrightarrow>
            (fst (add_uninitialized hc (Dataset ref)) = Inl (DimensionError r)
               \<longleftrightarrow> check_reference_dimensions init ref = Inl (DimensionError r))"
    by (simp only: fst_add_uninitialized dimension_error_from_check) simp
  from a b c d e f show ?thesis by (intro conjI)
qed



lemma variable_names_samples:
  "variable_names hindcast = [''init'', ''lead'', ''member'', ''SST'', ''SALT'']"
  "variable_names hindcast_sst = [''init'', ''lead'', ''member'', ''SST'']"
  "variable_names dated_hindcast = [''init'', ''lead'', ''member'', ''time'', ''SST'']"
  by (simp_all add: variable_names_def coord_names_def var_names_def hindcast_def
        hindcast_sst_def dated_hindcast_def forecast_coords_def)

lemma no_clash_samples:
  "\<not> (''init'' \<in> set (variable_names hindcast) \<and> ''time'' \<in> set (variable_names hindcast))"
  "\<not> (''init'' \<in> set (variable_names hindcast_sst) \<and> ''time'' \<in> set (variable_names hindcast_sst))"
  by (simp_all add: variable_names_samples)

lemma wanted_dims_hindcast: "wanted_dims hindcast = {''time''}"
  by (simp add: wanted_dims_def hindcast_def dim_names_def rename1_def)

lemma wanted_dims_dated_hindcast: "wanted_dims dated_hindcast = {''time''}"
  by (simp add: wanted_dims_def dated_hindcast_def dim_names_def rename1_def)

text \<open>
  Claim C4, where the code departs from it. The initialized dataset has the dimensions
  \<open>init\<close>, \<open>lead\<close> and \<open>member\<close>, each with its coordinate, and a coordinate \<open>time\<close>
  giving the date each forecast is valid for; the constructors accept it. After renaming
  and removal its dimension set is \<open>{time}\<close>. A candidate over \<open>time\<close> and \<open>depth\<close> differs
  from that by \<open>depth\<close>, and the claim has the check raise \<open>DimensionError\<close> reporting
  \<open>{depth}\<close>; a candidate over \<open>time\<close> alone matches. For both, the check raises
  \<open>ValueError\<close> in \<^verbatim>\<open>init.rename({'init': 'time'})\<close>, the name \<open>time\<close> being taken, before
  any dimension is compared, and so do \<^verbatim>\<open>add_control\<close> and \<^verbatim>\<open>add_reference\<close>.
\<close>

theorem rename_fails_before_dimension_check:
  "HindcastEnsemble_init (Dataset dated_hindcast)
     = Inr \<lparr>initialized = dated_hindcast, uninitialized = Empty_dict, reference = []\<rparr>
   \<and> ''init'' \<in> set (dim_names dated_hindcast) \<and> ''lead'' \<in> set (dim_names dated_hindcast)
   \<and> wanted_dims dated_hindcast = {''time''}
   \<and> set (dim_names profile) = {''time'', ''depth''}
   \<and> set_xor (set (dim_names profile)) (wanted_dims dated_hindcast) = {''depth''}
   \<and> check_reference_dimensions dated_hindcast profile = Inl ValueError
   \<and> fst (add_reference
            \<lparr>initialized = dated_hindcast, uninitialized = Empty_dict, reference = []\<rparr>
            (Dataset profile) ''obs'') = Inl ValueError
   \<and> fst (add_control
            \<lparr>initialized = dated_hindcast, uninitialized = Empty_dict, control = Empty_dict\<rparr>
            (Dataset profile)) = Inl ValueError
   \<and> set (dim_names observations) = wanted_dims dated_hindcast
   \<and> check_reference_dimensions dated_hindcast observations = Inl ValueError
   \<and> check_reference_dimensions hindcast profile = Inl (DimensionError (Unmatched {''depth''}))
   \<and> check_reference_dimensions hindcast observations = Inr ()"
proof -
  have d: "dim_names dated_hindcast = [''init'', ''lead'', ''member'']"
    by (simp add: dated_hindcast_def dim_names_def)
  have a: "HindcastEnsemble_init (Dataset dated_hindcast)
     = Inr \<lparr>initialized = dated_hindcast, uninitialized = Empty_dict, reference = []\<rparr>"
    by (simp add: HindcastEnsemble_init_def PredictionEnsemble_init_def
          check_prediction_ensemble_dimensions_def d)
  have b: "''init'' \<in> set (dim_names dated_hindcast)" "''lead'' \<in> set (dim_names dated_hindcast)"
    by (simp_all add: d)
  have p: "set (dim_names profile) = {''time'', ''depth''}"
    by (simp add: profile_def dim_names_def)
  have x: "set_xor (set (dim_names profile)) (wanted_dims dated_hindcast) = {''depth''}"
    by (simp add: wanted_dims_dated_hindcast p set_xor_def)
  have v: "''init'' \<in> set (variable_names dated_hindcast)"
    "''time'' \<in> set (variable_names dated_hindcast)"
    by (simp_all add: variable_names_samples)
  have c: "check_reference_dimensions dated_hindcast ref = Inl ValueError" for ref
    by (rule check_reference_dimensions_clash [OF v])
  have e: "fst (add_reference
            \<lparr>initialized = dated_hindcast, uninitialized = Empty_dict, reference = []\<rparr>
            (Dataset profile) ''obs'') = Inl ValueError"
    by (simp add: fst_add_reference c)
  have f: "fst (add_control
            \<lparr>initialized = dated_hindcast, uninitialized = Empty_dict, control = Empty_dict\<rparr>
            (Dataset profile)) = Inl ValueError"
    by (simp add: fst_add_control c)
  have o: "set (dim_names observations) = wanted_dims dated_hindcast"
    by (simp add: wanted_dims_dated_hindcast observations_def dim_names_def)
  have h1: "''init'' \<in> set (dim_names hindcast)" and h2: "distinct (dim_names hindcast)"
    by (simp_all add: hindcast_def dim_names_def)
  have g: "check_reference_dimensions hindcast profile = Inl (DimensionError (Unmatched {''depth''}))"
    unfolding check_reference_dimensions_eq [OF h1 h2 no_clash_samples(1)] wanted_dims_hindcast
    by (simp add: p set_xor_def)
  have h: "check_reference_dimensions hindcast observations = Inr ()"
    unfolding check_reference_dimensions_eq [OF h1 h2 no_clash_samples(1)] wanted_dims_hindcast
    by (simp add: observations_def dim_names_def)
  from a b wanted_dims_dated_hindcast p x c [of profile] e f o c [of observations] g h
  show ?thesis by (intro conjI)
qed

section \<open>Construction\<close>

lemma check_prediction_ensemble_dimensions_eq:
  "check_prediction_ensemble_dimensions ds =
     (if ''init'' \<in> set (dim_names ds) \<and> ''lead'' \<in> set (dim_names ds) then Inr ()
      else Inl (DimensionError Lead_and_init_required))"
  by (simp add: check_prediction_ensemble_dimensions_def Let_def)

lemma PredictionEnsemble_init_Dataset:
  "PredictionEnsemble_init (Dataset ds) =
     (if ''init'' \<in> set (dim_names ds) \<and> ''lead'' \<in> set (dim_names ds)
      then Inr \<lparr>initialized = ds, uninitialized = Empty_dict\<rparr>
      else Inl (DimensionError Lead_and_init_required))"
  by (simp add: PredictionEnsemble_init_def check_prediction_ensemble_dimensions_eq)

text \<open>
  Claim C9. Constructing a \<open>PredictionEnsemble\<close>, a \<open>PerfectModelEnsemble\<close> or a
  \<open>HindcastEnsemble\<close> from a dataset that lacks the dimension \<open>init\<close> or the dimension
  \<open>lead\<close> raises \<open>DimensionError\<close>; from a dataset that has both, construction succeeds
  and stores the dataset as \<open>initialized\<close>, with the other attributes empty. A named
  DataArray is constructed from as the dataset of its one variable, unless it is named
  like one of its coordinates, which \<^verbatim>\<open>to_dataset\<close> refuses with ValueError.
\<close>

theorem construction_requires_init_and_lead:
  "(''init'' \<notin> set (dim_names ds) \<or> ''lead'' \<notin> set (dim_names ds) \<longrightarrow>
       PredictionEnsemble_init (Dataset ds) = Inl (DimensionError Lead_and_init_required)
     \<and> PerfectModelEnsemble_init (Dataset ds) = Inl (DimensionError Lead_and_init_required)
     \<and> HindcastEnsemble_init (Dataset ds) = Inl (DimensionError Lead_and_init_required))
   \<and> (''init'' \<in> set (dim_names ds) \<and> ''lead'' \<in> set (dim_names ds) \<longrightarrow>
       PredictionEnsemble_init (Dataset ds) =
         Inr \<lparr>initialized = ds, uninitialized = Empty_dict\<rparr>
     \<and> PerfectModelEnsemble_init (Dataset ds) =
         Inr \<lparr>initialized = ds, uninitialized = Empty_dict, control = Empty_dict\<rparr>
     \<and> HindcastEnsemble_init (Dataset ds) =
         Inr \<lparr>initialized = ds, uninitialized = Empty_dict, reference = []\<rparr>)
   \<and> (da_name da = Some n \<longrightarrow>
       PredictionEnsemble_init (DataArray da) =
         (if n \<in> set (map fst (da_coords da)) then Inl ValueError
          else PredictionEnsemble_init
                 (Dataset \<lparr>dims = da_dims da, coords = da_coords da,
                           data_vars = [(n, da_variable da)]\<rparr>)))"
proof (intro conjI impI)
  assume "''init'' \<notin> set (dim_names ds) \<or> ''lead'' \<notin> set (dim_names ds)"
  then have e: "PredictionEnsemble_init (Dataset ds) = Inl (DimensionError Lead_and_init_required)"
    by (auto simp only: PredictionEnsemble_init_Dataset split: if_split)
  show "PredictionEnsemble_init (Dataset ds) = Inl (DimensionError Lead_and_init_required)"
    by (rule e)
  show "PerfectModelEnsemble_init (Dataset ds) = Inl (DimensionError Lead_and_init_required)"
    by (simp add: PerfectModelEnsemble_init_def e)
  show "HindcastEnsemble_init (Dataset ds) = Inl (DimensionError Lead_and_init_required)"
    by (simp add: HindcastEnsemble_init_def e)
next
  assume "''init'' \<in> set (dim_names ds) \<and> ''lead'' \<in> set (dim_names ds)"
  then have e: "PredictionEnsemble_init (Dataset ds) =
                  Inr \<lparr>initialized = ds, uninitialized = Empty_dict\<rparr>"
    by (simp add: PredictionEnsemble_init_Dataset)
  show "PredictionEnsemble_init (Dataset ds) = Inr \<lparr>initialized = ds, uninitialized = Empty_dict\<rparr>"
    by (rule e)
  show "PerfectModelEnsemble_init (Dataset ds) =
          Inr \<lparr>initialized = ds, uninitialized = Empty_dict, control = Empty_dict\<rparr>"
    by (simp add: PerfectModelEnsemble_init_def e)
  show "HindcastEnsemble_init (Dataset ds) =
          Inr \<lparr>initialized = ds, uninitialized = Empty_dict, reference = []\<rparr>"
    by (simp add: HindcastEnsemble_init_def e)
next
  assume "da_name da = Some n"
  then show "PredictionEnsemble_init (DataArray da) =
         (if n \<in> set (map fst (da_coords da)) then Inl ValueError
          else PredictionEnsemble_init
                 (Dataset \<lparr>dims = da_dims da, coords = da_coords da,
                           data_vars = [(n, da_variable da)]\<rparr>))"
    by (simp add: PredictionEnsemble_init_def to_dataset_def)
qed

theorem construction_requires_init_and_lead_witness:
  "''lead'' \<notin> set (dim_names without_lead)
   \<and> HindcastEnsemble_init (Dataset without_lead) = Inl (DimensionError Lead_and_init_required)
   \<and> ''init'' \<in> set (dim_names hindcast) \<and> ''lead'' \<in> set (dim_names hindcast)
   \<and> PerfectModelEnsemble_init (Dataset hindcast) =
        Inr \<lparr>initialized = hindcast, uninitialized = Empty_dict, control = Empty_dict\<rparr>
   \<and> da_name \<lparr>da_name = Some ''SST'', da_dims = dims hindcast,
          da_coords = forecast_coords, da_variable = forecast_var\<rparr>
        = Some ''SST''
   \<and> PredictionEnsemble_init
        (DataArray \<lparr>da_name = Some ''SST'', da_dims = dims hindcast,
          da_coords = forecast_coords, da_variable = forecast_var\<rparr>)
      = Inr \<lparr>initialized = hindcast_sst, uninitialized = Empty_dict\<rparr>"
proof -
  have a: "''init'' \<notin> set (dim_names without_lead) \<or> ''lead'' \<notin> set (dim_names without_lead)"
    by (simp add: without_lead_def dim_names_def)
  have b: "''init'' \<in> set (dim_names hindcast) \<and> ''lead'' \<in> set (dim_names hindcast)"
    by (simp add: hindcast_def dim_names_def)
  have b': "''init'' \<in> set (dim_names hindcast_sst) \<and> ''lead'' \<in> set (dim_names hindcast_sst)"
    by (simp add: hindcast_sst_def dim_names_def)
  have s: "\<lparr>dims = dims hindcast, coords = forecast_coords,
             data_vars = [(''SST'', forecast_var)]\<rparr> = hindcast_sst"
    by (simp add: hindcast_def hindcast_sst_def)
  have c: "da_name \<lparr>da_name = Some ''SST'', da_dims = dims hindcast,
          da_coords = forecast_coords, da_variable = forecast_var\<rparr>
        = Some ''SST''"
    by simp
  have n: "''SST'' \<notin> set (map fst forecast_coords)"
    by (simp add: forecast_coords_def)
  have d: "PredictionEnsemble_init
        (DataArray \<lparr>da_name = Some ''SST'', da_dims = dims hindcast,
          da_coords = forecast_coords, da_variable = forecast_var\<rparr>)
      = Inr \<lparr>initialized = hindcast_sst, uninitialized = Empty_dict\<rparr>"
    using construction_requires_init_and_lead
            [of hindcast_sst "\<lparr>da_name = Some ''SST'', da_dims = dims hindcast,
          da_coords = forecast_coords, da_variable = forecast_var\<rparr>" "''SST''"]
          b' c s n by simp
  note t1 = construction_requires_init_and_lead [of without_lead, THEN conjunct1, rule_format, OF a]
  note t2 = construction_requires_init_and_lead
              [of hindcast, THEN conjunct2, THEN conjunct1, rule_format, OF b]
  have e: "HindcastEnsemble_init (Dataset without_lead) = Inl (DimensionError Lead_and_init_required)"
    using t1 by simp
  have f: "PerfectModelEnsemble_init (Dataset hindcast) =
        Inr \<lparr>initialized = hindcast, uninitialized = Empty_dict, control = Empty_dict\<rparr>"
    using t2 by simp
  have a': "''lead'' \<notin> set (dim_names without_lead)"
    by (simp add: without_lead_def dim_names_def)
  from a' e b f c d show ?thesis by (intro conjI) simp_all
qed

section \<open>The variable check\<close>

lemma check_reference_vars_eq:
  "check_reference_vars_match_initialized init ref =
     (if set (var_names init) \<inter> set (var_names ref) = {}
      then Inl (VariableError (var_names init) (var_names ref)) else Inr ())"
  by (simp add: check_reference_vars_match_initialized_def Let_def)

lemma variable_error_from_check:
  "((case check_reference_dimensions init ds of
        Inl e \<Rightarrow> Inl e
      | Inr u \<Rightarrow> check_reference_vars_match_initialized init ds) = Inl (VariableError a b))
   = (check_reference_dimensions init ds = Inr ()
      \<and> check_reference_vars_match_initialized init ds = Inl (VariableError a b))"
  using check_dims_not_variable [of init ds a b]
  by (cases "check_reference_dimensions init ds") auto

text \<open>
  Claim C10. For every initialized dataset and every candidate dataset, the variable
  check raises \<open>VariableError\<close> exactly when the two sets of variable names are disjoint;
  the error carries both lists of names, the initialized one first; when a name is
  shared, the check passes. \<^verbatim>\<open>add_control\<close>, \<^verbatim>\<open>add_reference\<close> and \<^verbatim>\<open>add_uninitialized\<close>
  raise \<open>VariableError\<close> exactly when the dimension check passes and the variable check
  raises it.
\<close>

theorem shared_variable_checked:
  "((\<exists>a b. check_reference_vars_match_initialized init ref = Inl (VariableError a b))
       \<longleftrightarrow> set (var_names init) \<inter> set (var_names ref) = {})
   \<and> (set (var_names init) \<inter> set (var_names ref) = {} \<longrightarrow>
        check_reference_vars_match_initialized init ref
          = Inl (VariableError (var_names init) (var_names ref)))
   \<and> (set (var_names init) \<inter> set (var_names ref) \<noteq> {} \<longrightarrow>
        check_reference_vars_match_initialized init ref = Inr ())
   \<and> (\<forall>pm a b. initialized pm = init \<longrightarrow>
        (fst (add_control pm (Dataset ref)) = Inl (VariableError a b)
           \<longleftrightarrow> check_reference_dimensions init ref = Inr ()
               \<and> check_reference_vars_match_initialized init ref = Inl (VariableError a b)))
   \<and> (\<forall>hc name a b. initialized hc = init \<longrightarrow>
        (fst (add_reference hc (Dataset ref) name) = Inl (VariableError a b)
           \<longleftrightarrow> check_reference_dimensions init ref = Inr ()
               \<and> check_reference_vars_match_initialized init ref = Inl (VariableError a b)))
   \<and> (\<forall>hc a b. initialized hc = init \<longrightarrow>
        (fst (add_uninitialized hc (Dataset ref)) = Inl (VariableError a b)
           \<longleftrightarrow> check_reference_dimensions init ref = Inr ()
               \<and> check_reference_vars_match_initialized init ref = Inl (VariableError a b)))"
proof -
  have a: "(\<exists>a b. check_reference_vars_match_initialized init ref = Inl (VariableError a b))
       \<longleftrightarrow> set (var_names init) \<inter> set (var_names ref) = {}"
    unfolding check_reference_vars_eq by simp
  have b: "set (var_names init) \<inter> set (var_names ref) = {} \<longrightarrow>
        check_reference_vars_match_initialized init ref
          = Inl (VariableError (var_names init) (var_names ref))"
    unfolding check_reference_vars_eq by simp
  have c: "set (var_names init) \<inter> set (var_names ref) \<noteq> {} \<longrightarrow>
        check_reference_vars_match_initialized init ref = Inr ()"
    unfolding check_reference_vars_eq by simp
  have d: "\<forall>pm a b. initialized pm = init \<longrightarrow>
        (fst (add_control pm (Dataset ref)) = Inl (VariableError a b)
           \<longleftrightarrow> check_reference_dimensions init ref = Inr ()
               \<and> check_reference_vars_match_initialized init ref = Inl (VariableError a b))"
    by (simp only: fst_add_control variable_error_from_check) simp
  have e: "\<forall>hc name a b. initialized hc = init \<longrightarrow>
        (fst (add_reference hc (Dataset ref) name) = Inl (VariableError a b)
           \<longleftrightarrow> check_reference_dimensions init ref = Inr ()
               \<and> check_reference_vars_match_initialized init ref = Inl (VariableError a b))"
    by (simp only: fst_add_reference variable_error_from_check) simp
  have f: "\<forall>hc a b. initialized hc = init \<longrightarrow>
        (fst (add_uninitialized hc (Dataset ref)) = Inl (VariableError a b)
           \<longleftrightarrow> check_reference_dimensions init ref = Inr ()
               \<and> check_reference_vars_match_initialized init ref = Inl (VariableError a b))"
    by (simp only: fst_add_uninitialized variable_error_from_check) simp
  from a b c d e f show ?thesis by (intro conjI)
qed

theorem shared_variable_checked_witness:
  "set (var_names hindcast) \<inter> set (var_names winds) = {}
   \<and> check_reference_vars_match_initialized hindcast winds
        = Inl (VariableError [''SST'', ''SALT''] [''TAUX''])
   \<and> check_reference_dimensions hindcast winds = Inr ()
   \<and> fst (add_reference \<lparr>initialized = hindcast, uninitialized = Empty_dict, reference = []\<rparr>
            (Dataset winds) ''winds'') = Inl (VariableError [''SST'', ''SALT''] [''TAUX''])
   \<and> set (var_names hindcast) \<inter> set (var_names observations) \<noteq> {}
   \<and> check_reference_vars_match_initialized hindcast observations = Inr ()"
proof -
  have v: "var_names hindcast = [''SST'', ''SALT'']" "var_names winds = [''TAUX'']"
    "var_names observations = [''SST'']"
    by (simp_all add: hindcast_def winds_def observations_def var_names_def)
  have a: "set (var_names hindcast) \<inter> set (var_names winds) = {}"
    unfolding v by simp
  have b: "set (var_names hindcast) \<inter> set (var_names observations) \<noteq> {}"
    unfolding v by simp
  have h1: "''init'' \<in> set (dim_names hindcast)" and h2: "distinct (dim_names hindcast)"
    by (simp_all add: hindcast_def dim_names_def)
  have w: "set (dim_names winds) = wanted_dims hindcast"
    by (simp add: wanted_dims_hindcast winds_def dim_names_def)
  have d: "check_reference_dimensions hindcast winds = Inr ()"
    unfolding check_reference_dimensions_eq [OF h1 h2 no_clash_samples(1)] using w by simp
  note t1 = shared_variable_checked [of hindcast winds]
  note t2 = shared_variable_checked [of hindcast observations]
  have c1: "check_reference_vars_match_initialized hindcast winds
        = Inl (VariableError [''SST'', ''SALT''] [''TAUX''])"
    using t1 a v by simp
  have c2: "fst (add_reference \<lparr>initialized = hindcast, uninitialized = Empty_dict, reference = []\<rparr>
            (Dataset winds) ''winds'') = Inl (VariableError [''SST'', ''SALT''] [''TAUX''])"
    using t1 c1 d by simp
  have c3: "check_reference_vars_match_initialized hindcast observations = Inr ()"
    using t2 b by simp
  from a c1 d c2 b c3 show ?thesis by (intro conjI)
qed

section \<open>Adding datasets\<close>

lemma add_control_failed: "fst (add_control pm x) = Inl e \<Longrightarrow> snd (add_control pm x) = pm"
  by (auto simp: add_control_def split: sum.splits)

lemma add_reference_failed:
  "fst (add_reference hc x name) = Inl e \<Longrightarrow> snd (add_reference hc x name) = hc"
  by (auto simp: add_reference_def split: sum.splits)

lemma add_uninitialized_failed:
  "fst (add_uninitialized hc x) = Inl e \<Longrightarrow> snd (add_uninitialized hc x) = hc"
  by (auto simp: add_uninitialized_def split: sum.splits)

lemma add_control_stored:
  "add_control pm x = (Inr (), pm') \<Longrightarrow>
     \<exists>ds. promote x = Inr ds
        \<and> check_reference_dimensions (initialized pm) ds = Inr ()
        \<and> check_reference_vars_match_initialized (initialized pm) ds = Inr ()
        \<and> pm' = pm\<lparr>control := Stored ds\<rparr>"
  by (auto simp: add_control_def split: sum.splits)

text \<open>
  Claim C7. When \<^verbatim>\<open>add_control\<close>, \<^verbatim>\<open>add_reference\<close> or \<^verbatim>\<open>add_uninitialized\<close> raises (a
  \<open>DimensionError\<close>, a \<open>VariableError\<close> or anything else), the ensemble is left as it
  was: the stored control, the reference mapping and the uninitialized dataset keep
  their values, since the one assignment of each method comes after its checks.
\<close>

theorem failed_add_changes_nothing:
  "(fst (add_control pm x) = Inl e1 \<longrightarrow> snd (add_control pm x) = pm)
   \<and> (fst (add_reference hc y name) = Inl e2 \<longrightarrow> snd (add_reference hc y name) = hc)
   \<and> (fst (add_uninitialized hc' z) = Inl e3 \<longrightarrow> snd (add_uninitialized hc' z) = hc')"
  by (intro conjI impI add_control_failed add_reference_failed add_uninitialized_failed)

lemma check_dims_hindcast_profile:
  "check_reference_dimensions hindcast profile = Inl (DimensionError (Unmatched {''depth''}))"
proof -
  have h1: "''init'' \<in> set (dim_names hindcast)" and h2: "distinct (dim_names hindcast)"
    by (simp_all add: hindcast_def dim_names_def)
  show ?thesis
    unfolding check_reference_dimensions_eq [OF h1 h2 no_clash_samples(1)] wanted_dims_hindcast
    by (simp add: profile_def dim_names_def set_xor_def)
qed

lemma check_dims_hindcast_time:
  assumes "dim_names ds = [''time'']"
  shows "check_reference_dimensions hindcast ds = Inr ()"
proof -
  have h1: "''init'' \<in> set (dim_names hindcast)" and h2: "distinct (dim_names hindcast)"
    by (simp_all add: hindcast_def dim_names_def)
  show ?thesis
    unfolding check_reference_dimensions_eq [OF h1 h2 no_clash_samples(1)] wanted_dims_hindcast assms
    by simp
qed

lemma var_names_samples:
  "var_names hindcast = [''SST'', ''SALT'']" "var_names winds = [''TAUX'']"
  "var_names observations = [''SST'']" "var_names reconstruction = [''SALT'', ''SST'']"
  "var_names control_run = [''SST'', ''TEMP'']" "var_names hindcast_sst = [''SST'']"
  by (simp_all add: hindcast_def winds_def observations_def reconstruction_def control_run_def
        hindcast_sst_def var_names_def)

lemma dim_names_samples:
  "dim_names winds = [''time'']" "dim_names observations = [''time'']"
  "dim_names reconstruction = [''time'']" "dim_names control_run = [''time'']"
  "dim_names hindcast = [''init'', ''lead'', ''member'']"
  "dim_names hindcast_sst = [''init'', ''lead'', ''member'']"
  by (simp_all add: hindcast_def winds_def observations_def reconstruction_def control_run_def
        hindcast_sst_def dim_names_def)

theorem failed_add_changes_nothing_witness:
  "fst (add_control \<lparr>initialized = hindcast, uninitialized = Empty_dict, control = Stored observations\<rparr>
          (Dataset profile)) = Inl (DimensionError (Unmatched {''depth''}))
   \<and> snd (add_control \<lparr>initialized = hindcast, uninitialized = Empty_dict, control = Stored observations\<rparr>
          (Dataset profile))
       = \<lparr>initialized = hindcast, uninitialized = Empty_dict, control = Stored observations\<rparr>
   \<and> fst (add_reference \<lparr>initialized = hindcast, uninitialized = Empty_dict,
                          reference = [(''obs'', observations)]\<rparr> (Dataset winds) ''obs'')
       = Inl (VariableError [''SST'', ''SALT''] [''TAUX''])
   \<and> snd (add_reference \<lparr>initialized = hindcast, uninitialized = Empty_dict,
                          reference = [(''obs'', observations)]\<rparr> (Dataset winds) ''obs'')
       = \<lparr>initialized = hindcast, uninitialized = Empty_dict, reference = [(''obs'', observations)]\<rparr>
   \<and> fst (add_uninitialized \<lparr>initialized = hindcast, uninitialized = Stored observations,
                              reference = []\<rparr> (DataArray \<lparr>da_name = None, da_dims = [(''time'', 5)], da_coords = [],
                                                          da_variable = series_var\<rparr>))
       = Inl ValueError
   \<and> snd (add_uninitialized \<lparr>initialized = hindcast, uninitialized = Stored observations,
                              reference = []\<rparr> (DataArray \<lparr>da_name = None, da_dims = [(''time'', 5)], da_coords = [],
                                                          da_variable = series_var\<rparr>))
       = \<lparr>initialized = hindcast, uninitialized = Stored observations, reference = []\<rparr>"
proof -
  let ?pm = "\<lparr>initialized = hindcast, uninitialized = Empty_dict, control = Stored observations\<rparr>"
  let ?hc = "\<lparr>initialized = hindcast, uninitialized = Empty_dict,
              reference = [(''obs'', observations)]\<rparr>"
  let ?hc' = "\<lparr>initialized = hindcast, uninitialized = Stored observations,
               reference = ([] :: (string \<times> unit dataset) list)\<rparr>"
  let ?da = "\<lparr>da_name = None, da_dims = [(''time'', 5)], da_coords = [],
                 da_variable = series_var\<rparr>"
  have a: "fst (add_control ?pm (Dataset profile)) = Inl (DimensionError (Unmatched {''depth''}))"
    by (simp add: fst_add_control check_dims_hindcast_profile)
  have b: "fst (add_reference ?hc (Dataset winds) ''obs'')
             = Inl (VariableError [''SST'', ''SALT''] [''TAUX''])"
    by (simp add: fst_add_reference check_dims_hindcast_time dim_names_samples
          check_reference_vars_eq var_names_samples)
  have c: "fst (add_uninitialized ?hc' (DataArray ?da)) = Inl ValueError"
    by (simp add: add_uninitialized_def to_dataset_def)
  note t = failed_add_changes_nothing [of ?pm "Dataset profile" _ ?hc "Dataset winds" "''obs''" _
             ?hc' "DataArray ?da"]
  have a': "snd (add_control ?pm (Dataset profile)) = ?pm"
    using t a by blast
  have b': "snd (add_reference ?hc (Dataset winds) ''obs'') = ?hc"
    using t b by blast
  have c': "snd (add_uninitialized ?hc' (DataArray ?da)) = ?hc'"
    using t c by blast
  from a a' b b' c c' show ?thesis by (intro conjI)
qed

section \<open>PerfectModelEnsemble: what has to be there\<close>

lemma getitem_dimension:
  "name \<in> set (dim_names ds) \<Longrightarrow> \<exists>da. getitem ds name = Inr da"
proof -
  assume "name \<in> set (dim_names ds)"
  then obtain n where "map_of (dims ds) name = Some n"
    by (cases "map_of (dims ds) name") (simp_all add: dim_names_def map_of_eq_None_iff)
  then show ?thesis
    by (cases "map_of (data_vars ds @ coords ds) name") (simp_all only: getitem_def option.case, blast+)
qed

lemma lead_size_present:
  "''lead'' \<in> set (dim_names ds) \<Longrightarrow> \<exists>n. lead_size ds = Inr n"
  using getitem_dimension [of "''lead''" ds] by (auto simp: lead_size_def)

lemma shared_variable_nonempty:
  "check_reference_vars_match_initialized init ds = Inr () \<Longrightarrow> data_vars ds \<noteq> []"
  by (auto simp: check_reference_vars_eq var_names_def split: if_splits)

lemma len_after_add_control:
  assumes "add_control pm x = (Inr (), pm')"
  shows "len (control pm') \<noteq> 0"
proof -
  obtain ds where "check_reference_vars_match_initialized (initialized pm) ds = Inr ()"
    and "pm' = pm\<lparr>control := Stored ds\<rparr>"
    using add_control_stored [OF assms] by blast
  then show ?thesis using shared_variable_nonempty by simp
qed

lemma pm_compute_persistence_eq:
  assumes "len (control pm) \<noteq> 0" and "nlags \<noteq> None \<or> ''lead'' \<in> set (dim_names (initialized pm))"
  shows "pm_compute_persistence P pm nlags metric = P (initialized pm) (control pm) metric"
proof (cases nlags)
  case None
  then obtain n where "lead_size (initialized pm) = Inr n"
    using assms(2) lead_size_present by blast
  then show ?thesis using None assms(1) by (simp add: pm_compute_persistence_def)
next
  case (Some n)
  then show ?thesis using assms(1) by (simp add: pm_compute_persistence_def)
qed

lemma pm_compute_uninitialized_eq:
  "pm_compute_uninitialized E pm metric comparison =
     (if len (uninitialized pm) = 0 then Inl DatasetError
      else case uninitialized pm of
             Empty_dict \<Rightarrow> Inl DatasetError
           | Stored u \<Rightarrow> E u (control pm) metric comparison)"
  by (simp add: pm_compute_uninitialized_def split: slot.splits)

text \<open>
  Claim C8. On a \<open>PerfectModelEnsemble\<close>, \<^verbatim>\<open>compute_metric\<close> and \<^verbatim>\<open>compute_persistence\<close>
  raise \<open>DatasetError\<close> while no control is there (\<^verbatim>\<open>len(self.control) == 0\<close>, as right
  after construction) and otherwise return what their engine returns on the initialized
  dataset and the control (as after a successful \<^verbatim>\<open>add_control\<close>);
  \<^verbatim>\<open>compute_uninitialized\<close> raises \<open>DatasetError\<close> while no uninitialized dataset is there
  and otherwise returns what the engine returns on the uninitialized dataset and the
  control. For \<^verbatim>\<open>compute_persistence\<close> without \<open>nlags\<close> the initialized dataset has the
  dimension \<open>lead\<close>, as every constructed ensemble does.
\<close>

theorem perfect_model_needs_its_datasets:
  "(len (control pm) = 0 \<longrightarrow>
       pm_compute_metric E pm metric comparison = Inl DatasetError
     \<and> pm_compute_persistence P pm nlags metric = Inl DatasetError)
   \<and> (len (control pm) \<noteq> 0 \<longrightarrow>
       pm_compute_metric E pm metric comparison
         = E (initialized pm) (control pm) metric comparison)
   \<and> (len (control pm) \<noteq> 0 \<and> (nlags \<noteq> None \<or> ''lead'' \<in> set (dim_names (initialized pm))) \<longrightarrow>
       pm_compute_persistence P pm nlags metric = P (initialized pm) (control pm) metric)
   \<and> (len (uninitialized pm) = 0 \<longrightarrow>
       pm_compute_uninitialized E pm metric comparison = Inl DatasetError)
   \<and> (\<forall>u. uninitialized pm = Stored u \<and> data_vars u \<noteq> [] \<longrightarrow>
       pm_compute_uninitialized E pm metric comparison = E u (control pm) metric comparison)
   \<and> (\<forall>x. PerfectModelEnsemble_init x = Inr pm \<longrightarrow>
       len (control pm) = 0 \<and> len (uninitialized pm) = 0
       \<and> ''lead'' \<in> set (dim_names (initialized pm)))
   \<and> (\<forall>pm0 x. add_control pm0 x = (Inr (), pm) \<longrightarrow> len (control pm) \<noteq> 0)"
proof (intro conjI impI allI)
  assume "len (control pm) = 0"
  then show "pm_compute_metric E pm metric comparison = Inl DatasetError"
    and "pm_compute_persistence P pm nlags metric = Inl DatasetError"
    by (simp_all add: pm_compute_metric_def pm_compute_persistence_def)
next
  assume "len (control pm) \<noteq> 0"
  then show "pm_compute_metric E pm metric comparison
         = E (initialized pm) (control pm) metric comparison"
    by (simp add: pm_compute_metric_def)
next
  assume "len (control pm) \<noteq> 0 \<and> (nlags \<noteq> None \<or> ''lead'' \<in> set (dim_names (initialized pm)))"
  then show "pm_compute_persistence P pm nlags metric = P (initialized pm) (control pm) metric"
    using pm_compute_persistence_eq by blast
next
  assume "len (uninitialized pm) = 0"
  then show "pm_compute_uninitialized E pm metric comparison = Inl DatasetError"
    by (simp add: pm_compute_uninitialized_eq)
next
  fix u assume "uninitialized pm = Stored u \<and> data_vars u \<noteq> []"
  then show "pm_compute_uninitialized E pm metric comparison = E u (control pm) metric comparison"
    by (simp add: pm_compute_uninitialized_eq)
next
  fix x assume a: "PerfectModelEnsemble_init x = Inr pm"
  then obtain ds where p: "promote x = Inr ds"
    and c: "check_prediction_ensemble_dimensions ds = Inr ()"
    and pm: "pm = \<lparr>initialized = ds, uninitialized = Empty_dict, control = Empty_dict\<rparr>"
    by (auto simp: PerfectModelEnsemble_init_def PredictionEnsemble_init_def split: sum.splits)
  show "len (control pm) = 0" "len (uninitialized pm) = 0" by (simp_all add: pm)
  show "''lead'' \<in> set (dim_names (initialized pm))"
    using c by (simp add: pm check_prediction_ensemble_dimensions_eq split: if_splits)
next
  fix pm0 x assume "add_control pm0 x = (Inr (), pm)"
  then show "len (control pm) \<noteq> 0" by (rule len_after_add_control)
qed

lemma add_control_observations:
  "add_control \<lparr>initialized = hindcast_sst, uninitialized = Empty_dict, control = Empty_dict\<rparr>
     (Dataset observations)
   = (Inr (), \<lparr>initialized = hindcast_sst, uninitialized = Empty_dict,
                control = Stored observations\<rparr>)"
proof -
  have h1: "''init'' \<in> set (dim_names hindcast_sst)" and h2: "distinct (dim_names hindcast_sst)"
    by (simp_all add: dim_names_samples)
  have w: "wanted_dims hindcast_sst = {''time''}"
    by (simp add: wanted_dims_def dim_names_samples rename1_def)
  have d: "check_reference_dimensions hindcast_sst observations = Inr ()"
    unfolding check_reference_dimensions_eq [OF h1 h2 no_clash_samples(2)] w by (simp add: dim_names_samples)
  have v: "check_reference_vars_match_initialized hindcast_sst observations = Inr ()"
    by (simp add: check_reference_vars_eq var_names_samples)
  show ?thesis by (simp add: add_control_def d v)
qed

theorem perfect_model_needs_its_datasets_witness:
  "PerfectModelEnsemble_init (Dataset hindcast_sst)
     = Inr \<lparr>initialized = hindcast_sst, uninitialized = Empty_dict, control = Empty_dict\<rparr>
   \<and> len (control \<lparr>initialized = hindcast_sst, uninitialized = Empty_dict,
                    control = Empty_dict\<rparr>) = 0
   \<and> pm_compute_metric (\<lambda>i c m k. Inr (var_names i, len c, m, k))
        \<lparr>initialized = hindcast_sst, uninitialized = Empty_dict, control = Empty_dict\<rparr>
        ''pearson_r'' ''m2m'' = Inl DatasetError
   \<and> pm_compute_persistence (\<lambda>i c m. Inr (var_names i, len c, m))
        \<lparr>initialized = hindcast_sst, uninitialized = Empty_dict, control = Empty_dict\<rparr>
        None ''pearson_r'' = Inl DatasetError
   \<and> pm_compute_uninitialized (\<lambda>i c m k. Inr (var_names i, len c, m, k))
        \<lparr>initialized = hindcast_sst, uninitialized = Empty_dict, control = Empty_dict\<rparr>
        ''pearson_r'' ''m2e'' = Inl DatasetError
   \<and> add_control \<lparr>initialized = hindcast_sst, uninitialized = Empty_dict, control = Empty_dict\<rparr>
        (Dataset observations)
      = (Inr (), \<lparr>initialized = hindcast_sst, uninitialized = Empty_dict,
                   control = Stored observations\<rparr>)
   \<and> len (control \<lparr>initialized = hindcast_sst, uninitialized = Empty_dict,
                    control = Stored observations\<rparr>) \<noteq> 0
   \<and> pm_compute_metric (\<lambda>i c m k. Inr (var_names i, len c, m, k))
        \<lparr>initialized = hindcast_sst, uninitialized = Empty_dict, control = Stored observations\<rparr>
        ''pearson_r'' ''m2m'' = Inr ([''SST''], 1, ''pearson_r'', ''m2m'')
   \<and> pm_compute_persistence (\<lambda>i c m. Inr (var_names i, len c, m))
        \<lparr>initialized = hindcast_sst, uninitialized = Empty_dict, control = Stored observations\<rparr>
        None ''pearson_r'' = Inr ([''SST''], 1, ''pearson_r'')
   \<and> pm_compute_uninitialized (\<lambda>i c m k. Inr (var_names i, len c, m, k))
        \<lparr>initialized = hindcast_sst, uninitialized = Stored hindcast,
          control = Stored observations\<rparr>
        ''pearson_r'' ''m2e'' = Inr ([''SST'', ''SALT''], 1, ''pearson_r'', ''m2e'')"
proof -
  let ?E = "\<lambda>(i :: unit dataset) (c :: unit slot) (m :: string) (k :: string).
              (Inr (var_names i, len c, m, k) :: error + string list \<times> nat \<times> string \<times> string)"
  let ?P = "\<lambda>(i :: unit dataset) (c :: unit slot) (m :: string).
              (Inr (var_names i, len c, m) :: error + string list \<times> nat \<times> string)"
  let ?pm0 = "\<lparr>initialized = hindcast_sst, uninitialized = Empty_dict, control = Empty_dict\<rparr>"
  let ?pm1 = "\<lparr>initialized = hindcast_sst, uninitialized = Empty_dict,
               control = Stored observations\<rparr>"
  let ?pm2 = "\<lparr>initialized = hindcast_sst, uninitialized = Stored hindcast,
               control = Stored observations\<rparr>"
  have init: "PerfectModelEnsemble_init (Dataset hindcast_sst) = Inr ?pm0"
    by (simp add: PerfectModelEnsemble_init_def PredictionEnsemble_init_Dataset dim_names_samples)
  have l0: "len (control ?pm0) = 0" "len (uninitialized ?pm0) = 0" by simp_all
  have l1: "len (control ?pm1) \<noteq> 0" by (simp add: observations_def)
  have lead: "''lead'' \<in> set (dim_names (initialized ?pm1))" by (simp add: dim_names_samples)
  have u2: "uninitialized ?pm2 = Stored hindcast \<and> data_vars hindcast \<noteq> []"
    by (simp add: hindcast_def)
  note t0 = perfect_model_needs_its_datasets
              [where pm = ?pm0 and E = ?E and P = ?P and nlags = None
                 and metric = "''pearson_r''" and comparison = "''m2m''"]
  note t0' = perfect_model_needs_its_datasets
              [where pm = ?pm0 and E = ?E and P = ?P and nlags = None
                 and metric = "''pearson_r''" and comparison = "''m2e''"]
  note t1 = perfect_model_needs_its_datasets
              [where pm = ?pm1 and E = ?E and P = ?P and nlags = None
                 and metric = "''pearson_r''" and comparison = "''m2m''"]
  note t2 = perfect_model_needs_its_datasets
              [where pm = ?pm2 and E = ?E and P = ?P and nlags = None
                 and metric = "''pearson_r''" and comparison = "''m2e''"]
  have a: "pm_compute_metric ?E ?pm0 ''pearson_r'' ''m2m'' = Inl DatasetError"
    and b: "pm_compute_persistence ?P ?pm0 None ''pearson_r'' = Inl DatasetError"
    using t0 [THEN conjunct1, rule_format, OF l0(1)] by simp_all
  have c: "pm_compute_uninitialized ?E ?pm0 ''pearson_r'' ''m2e'' = Inl DatasetError"
    using t0' [THEN conjunct2, THEN conjunct2, THEN conjunct2, THEN conjunct1, rule_format,
               OF l0(2)] .
  have d: "pm_compute_metric ?E ?pm1 ''pearson_r'' ''m2m'' = Inr ([''SST''], 1, ''pearson_r'', ''m2m'')"
    using t1 [THEN conjunct2, THEN conjunct1, rule_format, OF l1]
    by (simp add: var_names_samples observations_def)
  have e: "pm_compute_persistence ?P ?pm1 None ''pearson_r'' = Inr ([''SST''], 1, ''pearson_r'')"
    using t1 [THEN conjunct2, THEN conjunct2, THEN conjunct1, rule_format] l1 lead
    by (simp add: var_names_samples observations_def)
  have f: "pm_compute_uninitialized ?E ?pm2 ''pearson_r'' ''m2e''
             = Inr ([''SST'', ''SALT''], 1, ''pearson_r'', ''m2e'')"
    using t2 [THEN conjunct2, THEN conjunct2, THEN conjunct2, THEN conjunct2, THEN conjunct1,
              rule_format, OF u2]
    by (simp add: var_names_samples observations_def)
  from init l0(1) a b c add_control_observations l1 d e f show ?thesis by (intro conjI)
qed

section \<open>Loops that fill a dictionary\<close>

lemma update_fresh: "k \<notin> fst ` set d \<Longrightarrow> AList.update k v d = d @ [(k, v)]"
  by (induction d) auto

lemma collect_returns:
  assumes "distinct keys" and "set keys \<inter> fst ` set d = {}"
    and "\<forall>k \<in> set keys. f k = Inr (g k)"
  shows "collect f keys d = Inr (d @ map (\<lambda>k. (k, g k)) keys)"
  using assms
proof (induction keys arbitrary: d)
  case Nil
  then show ?case by simp
next
  case (Cons k keys)
  have fresh: "k \<notin> fst ` set d" using Cons.prems(2) by auto
  have f: "f k = Inr (g k)" using Cons.prems(3) by simp
  have "collect f keys (d @ [(k, g k)]) = Inr ((d @ [(k, g k)]) @ map (\<lambda>k. (k, g k)) keys)"
  proof (rule Cons.IH)
    show "distinct keys" using Cons.prems(1) by simp
    show "set keys \<inter> fst ` set (d @ [(k, g k)]) = {}" using Cons.prems(1,2) by auto
    show "\<forall>k \<in> set keys. f k = Inr (g k)" using Cons.prems(3) by simp
  qed
  then show ?case by (simp add: f update_fresh [OF fresh])
qed

lemma collect_raises:
  "collect f keys d = Inl e \<Longrightarrow> \<exists>k \<in> set keys. f k = Inl e"
proof (induction keys arbitrary: d)
  case Nil
  then show ?case by simp
next
  case (Cons k keys)
  then show ?case by (cases "f k") auto
qed

lemma collect_all_returned:
  "collect f keys d = Inr d' \<Longrightarrow> \<forall>k \<in> set keys. \<exists>r. f k = Inr r"
proof (induction keys arbitrary: d)
  case Nil
  then show ?case by simp
next
  case (Cons k keys)
  then show ?case by (cases "f k") auto
qed

lemma map_over_entries:
  assumes "distinct (map fst al)"
  shows "map (\<lambda>k. (k, h (the (map_of al k)))) (map fst al) = map (\<lambda>(k, v). (k, h v)) al"
proof -
  have "\<And>k v. (k, v) \<in> set al \<Longrightarrow> map_of al k = Some v"
    using assms by simp
  then show ?thesis by (auto simp: comp_def)
qed

section \<open>compute_uninitialized without references\<close>

text \<open>
  Claim C6. On a \<open>HindcastEnsemble\<close> whose uninitialized dataset is there (it has a data
  variable) and whose reference mapping is empty, \<^verbatim>\<open>compute_uninitialized\<close> without
  \<open>refname\<close> raises nothing and returns the empty dictionary; the only thing the method
  asks for is the uninitialized dataset, without which it raises \<open>DatasetError\<close>.
\<close>

theorem uninitialized_without_references:
  "(\<forall>u. uninitialized hc = Stored u \<and> data_vars u \<noteq> [] \<and> reference hc = [] \<longrightarrow>
       hc_compute_uninitialized iter E hc None metric comparison = Inr (Results []))
   \<and> (len (uninitialized hc) = 0 \<longrightarrow>
       hc_compute_uninitialized iter E hc refname metric comparison = Inl DatasetError)"
  by (cases "uninitialized hc") (simp_all add: hc_compute_uninitialized_def results_def)

lemma add_uninitialized_observations:
  "add_uninitialized \<lparr>initialized = hindcast, uninitialized = Empty_dict, reference = []\<rparr>
     (Dataset observations)
   = (Inr (), \<lparr>initialized = hindcast, uninitialized = Stored observations, reference = []\<rparr>)"
  by (simp add: add_uninitialized_def check_dims_hindcast_time dim_names_samples
        check_reference_vars_eq var_names_samples)

theorem uninitialized_without_references_witness:
  "add_uninitialized \<lparr>initialized = hindcast, uninitialized = Empty_dict, reference = []\<rparr>
     (Dataset observations)
   = (Inr (), \<lparr>initialized = hindcast, uninitialized = Stored observations, reference = []\<rparr>)
   \<and> uninitialized \<lparr>initialized = hindcast, uninitialized = Stored observations,
                     reference = ([] :: (string \<times> unit dataset) list)\<rparr> = Stored observations
   \<and> data_vars observations \<noteq> []
   \<and> hc_compute_uninitialized listed seen
        \<lparr>initialized = hindcast, uninitialized = Stored observations, reference = []\<rparr>
        None ''pearson_r'' ''e2r'' = Inr (Results [])
   \<and> len (uninitialized \<lparr>initialized = hindcast, uninitialized = Empty_dict,
                           reference = ([] :: (string \<times> unit dataset) list)\<rparr>) = 0
   \<and> hc_compute_uninitialized listed seen
        \<lparr>initialized = hindcast, uninitialized = Empty_dict, reference = []\<rparr>
        None ''pearson_r'' ''e2r'' = Inl DatasetError"
proof -
  let ?hc0 = "\<lparr>initialized = hindcast, uninitialized = Empty_dict,
               reference = ([] :: (string \<times> unit dataset) list)\<rparr>"
  let ?hc1 = "\<lparr>initialized = hindcast, uninitialized = Stored observations,
               reference = ([] :: (string \<times> unit dataset) list)\<rparr>"
  have h: "uninitialized ?hc1 = Stored observations \<and> data_vars observations \<noteq> []
           \<and> reference ?hc1 = []"
    by (simp add: observations_def)
  have l: "len (uninitialized ?hc0) = 0" by simp
  have a: "hc_compute_uninitialized listed seen ?hc1 None ''pearson_r'' ''e2r'' = Inr (Results [])"
    using uninitialized_without_references
            [where hc = ?hc1 and iter = listed and E = seen, THEN conjunct1, rule_format, OF h] .
  have b: "hc_compute_uninitialized listed seen ?hc0 None ''pearson_r'' ''e2r'' = Inl DatasetError"
    using uninitialized_without_references
            [where hc = ?hc0 and iter = listed and E = seen, THEN conjunct2, rule_format, OF l] .
  from add_uninitialized_observations h a l b show ?thesis by simp
qed

section \<open>Persistence\<close>

lemma hc_compute_persistence_eq:
  assumes "reference hc \<noteq> []" and "nlags \<noteq> None \<or> ''lead'' \<in> set (dim_names (initialized hc))"
  shows "hc_compute_persistence P hc refname nlags metric =
           (case refname of
              Some name \<Rightarrow> single (persistence_for P hc metric name)
            | None \<Rightarrow> results (collect (persistence_for P hc metric) (map fst (reference hc)) []))"
proof (cases nlags)
  case None
  then obtain n where "lead_size (initialized hc) = Inr n"
    using assms(2) lead_size_present by blast
  then show ?thesis using None assms(1) by (simp add: hc_compute_persistence_def Let_def)
next
  case (Some n)
  then show ?thesis using assms(1) by (simp add: hc_compute_persistence_def Let_def)
qed

lemma persistence_for_all:
  assumes "distinct (map fst (reference hc))"
    and "\<forall>(name, r) \<in> set (reference hc). P (initialized hc) (Stored r) metric = Inr (g r)"
  shows "collect (persistence_for P hc metric) (map fst (reference hc)) []
           = Inr (map (\<lambda>(name, r). (name, g r)) (reference hc))"
proof -
  have "\<forall>k \<in> set (map fst (reference hc)).
          persistence_for P hc metric k = Inr (g (the (map_of (reference hc) k)))"
  proof
    fix k assume "k \<in> set (map fst (reference hc))"
    then obtain r where r: "(k, r) \<in> set (reference hc)" by auto
    then have "map_of (reference hc) k = Some r" using assms(1) by simp
    then show "persistence_for P hc metric k = Inr (g (the (map_of (reference hc) k)))"
      using assms(2) r by (auto simp: persistence_for_def)
  qed
  then have "collect (persistence_for P hc metric) (map fst (reference hc)) []
               = Inr ([] @ map (\<lambda>k. (k, g (the (map_of (reference hc) k)))) (map fst (reference hc)))"
    using assms(1) by (intro collect_returns) simp_all
  then show ?thesis by (simp only: append_Nil map_over_entries [OF assms(1)])
qed

text \<open>
  Claim C2. On a \<open>PerfectModelEnsemble\<close> with a control, and on a \<open>HindcastEnsemble\<close>
  with references, whose initialized dataset has the dimension \<open>lead\<close> (as every
  constructed ensemble has), \<^verbatim>\<open>compute_persistence\<close> hands the persistence engine the
  initialized dataset, the control (or the reference) and the metric: the datasets as
  they are stored, with no variable dropped, and no \<open>nlags\<close>. With a reference name the
  hindcast method returns the engine's result for that reference, without one the
  dictionary of the engine's results for all references. So the value returned is the
  same for any two values of \<open>nlags\<close>.
\<close>

theorem persistence_ignores_nlags:
  "(len (control pm) \<noteq> 0 \<and> ''lead'' \<in> set (dim_names (initialized pm)) \<longrightarrow>
       (\<forall>nlags. pm_compute_persistence P pm nlags metric
                   = P (initialized pm) (control pm) metric)
     \<and> (\<forall>n n'. pm_compute_persistence P pm n metric = pm_compute_persistence P pm n' metric))
   \<and> (reference hc \<noteq> [] \<and> ''lead'' \<in> set (dim_names (initialized hc)) \<longrightarrow>
       (\<forall>nlags name r. map_of (reference hc) name = Some r \<longrightarrow>
          hc_compute_persistence P hc (Some name) nlags metric
            = single (P (initialized hc) (Stored r) metric))
     \<and> (\<forall>nlags g. distinct (map fst (reference hc))
            \<and> (\<forall>(name, r) \<in> set (reference hc).
                  P (initialized hc) (Stored r) metric = Inr (g r)) \<longrightarrow>
          hc_compute_persistence P hc None nlags metric
            = Inr (Results (map (\<lambda>(name, r). (name, g r)) (reference hc))))
     \<and> (\<forall>refname n n'. hc_compute_persistence P hc refname n metric
                          = hc_compute_persistence P hc refname n' metric))"
proof (intro conjI impI allI)
  fix nlags n n'
  assume a: "len (control pm) \<noteq> 0 \<and> ''lead'' \<in> set (dim_names (initialized pm))"
  show "pm_compute_persistence P pm nlags metric = P (initialized pm) (control pm) metric"
    using a by (simp add: pm_compute_persistence_eq)
  show "pm_compute_persistence P pm n metric = pm_compute_persistence P pm n' metric"
    using a by (simp add: pm_compute_persistence_eq)
next
  fix nlags name r
  assume a: "reference hc \<noteq> [] \<and> ''lead'' \<in> set (dim_names (initialized hc))"
    and r: "map_of (reference hc) name = Some r"
  show "hc_compute_persistence P hc (Some name) nlags metric
          = single (P (initialized hc) (Stored r) metric)"
    using a r by (simp add: hc_compute_persistence_eq persistence_for_def)
next
  fix nlags and g :: "'a dataset \<Rightarrow> 'b"
  assume a: "reference hc \<noteq> [] \<and> ''lead'' \<in> set (dim_names (initialized hc))"
    and b: "distinct (map fst (reference hc))
            \<and> (\<forall>(name, r) \<in> set (reference hc).
                  P (initialized hc) (Stored r) metric = Inr (g r))"
  have "collect (persistence_for P hc metric) (map fst (reference hc)) []
           = Inr (map (\<lambda>(name, r). (name, g r)) (reference hc))"
    using b by (intro persistence_for_all) simp_all
  then show "hc_compute_persistence P hc None nlags metric
          = Inr (Results (map (\<lambda>(name, r). (name, g r)) (reference hc)))"
    using a by (simp add: hc_compute_persistence_eq results_def)
next
  fix refname n n'
  assume a: "reference hc \<noteq> [] \<and> ''lead'' \<in> set (dim_names (initialized hc))"
  show "hc_compute_persistence P hc refname n metric = hc_compute_persistence P hc refname n' metric"
    using a by (simp add: hc_compute_persistence_eq)
qed


theorem persistence_ignores_nlags_witness:
  "len (control \<lparr>initialized = hindcast, uninitialized = Empty_dict,
                  control = Stored observations\<rparr>) \<noteq> 0
   \<and> ''lead'' \<in> set (dim_names hindcast)
   \<and> pm_compute_persistence (\<lambda>i c m. Inr (i, c, m))
        \<lparr>initialized = hindcast, uninitialized = Empty_dict, control = Stored observations\<rparr>
        None ''pearson_r'' = Inr (hindcast, Stored observations, ''pearson_r'')
   \<and> pm_compute_persistence (\<lambda>i c m. Inr (i, c, m))
        \<lparr>initialized = hindcast, uninitialized = Empty_dict, control = Stored observations\<rparr>
        (Some 1) ''pearson_r'' = Inr (hindcast, Stored observations, ''pearson_r'')
   \<and> hc_compute_persistence (\<lambda>i c m. Inr (i, c, m))
        \<lparr>initialized = hindcast, uninitialized = Empty_dict,
          reference = [(''obs'', observations), (''recon'', reconstruction)]\<rparr>
        (Some ''obs'') None ''pearson_r''
      = Inr (Result (hindcast, Stored observations, ''pearson_r''))
   \<and> hc_compute_persistence (\<lambda>i c m. Inr (i, c, m))
        \<lparr>initialized = hindcast, uninitialized = Empty_dict,
          reference = [(''obs'', observations), (''recon'', reconstruction)]\<rparr>
        None (Some 7) ''pearson_r''
      = Inr (Results [(''obs'', hindcast, Stored observations, ''pearson_r''),
                      (''recon'', hindcast, Stored reconstruction, ''pearson_r'')])
   \<and> hc_compute_persistence (\<lambda>i c m. Inr (i, c, m))
        \<lparr>initialized = hindcast, uninitialized = Empty_dict,
          reference = [(''obs'', observations), (''recon'', reconstruction)]\<rparr>
        None None ''pearson_r''
      = hc_compute_persistence (\<lambda>i c m. Inr (i, c, m))
        \<lparr>initialized = hindcast, uninitialized = Empty_dict,
          reference = [(''obs'', observations), (''recon'', reconstruction)]\<rparr>
        None (Some 7) ''pearson_r''"
proof -
  let ?P = "\<lambda>(i :: unit dataset) (c :: unit slot) (m :: string).
              (Inr (i, c, m) :: error + unit dataset \<times> unit slot \<times> string)"
  let ?pm = "\<lparr>initialized = hindcast, uninitialized = Empty_dict, control = Stored observations\<rparr>"
  let ?hc = "\<lparr>initialized = hindcast, uninitialized = Empty_dict,
              reference = [(''obs'', observations), (''recon'', reconstruction)]\<rparr>"
  let ?g = "\<lambda>r :: unit dataset. (hindcast, Stored r, ''pearson_r'')"
  have l: "len (control ?pm) \<noteq> 0" by (simp add: observations_def)
  have lead: "''lead'' \<in> set (dim_names hindcast)" by (simp add: dim_names_samples)
  have hp: "len (control ?pm) \<noteq> 0 \<and> ''lead'' \<in> set (dim_names (initialized ?pm))"
    using l lead by simp
  have hh: "reference ?hc \<noteq> [] \<and> ''lead'' \<in> set (dim_names (initialized ?hc))"
    using lead by simp
  have obs: "map_of (reference ?hc) ''obs'' = Some observations" by simp
  have all: "distinct (map fst (reference ?hc))
             \<and> (\<forall>(name, r) \<in> set (reference ?hc). ?P (initialized ?hc) (Stored r) ''pearson_r''
                                                     = Inr (?g r))"
    by simp
  note t = persistence_ignores_nlags
             [where pm = ?pm and hc = ?hc and P = ?P and metric = "''pearson_r''"]
  note tp = t [THEN conjunct1, rule_format, OF hp]
  note th = t [THEN conjunct2, rule_format, OF hh]
  have a: "pm_compute_persistence ?P ?pm None ''pearson_r''
             = Inr (hindcast, Stored observations, ''pearson_r'')"
    using tp [THEN conjunct1, rule_format, of None] by simp
  have b: "pm_compute_persistence ?P ?pm (Some 1) ''pearson_r''
             = Inr (hindcast, Stored observations, ''pearson_r'')"
    using tp [THEN conjunct1, rule_format, of "Some 1"] by simp
  have c: "hc_compute_persistence ?P ?hc (Some ''obs'') None ''pearson_r''
             = Inr (Result (hindcast, Stored observations, ''pearson_r''))"
    using th [THEN conjunct1, rule_format, OF obs, of None] by simp
  have d: "hc_compute_persistence ?P ?hc None (Some 7) ''pearson_r''
             = Inr (Results [(''obs'', hindcast, Stored observations, ''pearson_r''),
                             (''recon'', hindcast, Stored reconstruction, ''pearson_r'')])"
    using th [THEN conjunct2, THEN conjunct1, rule_format, OF all, of "Some 7"] by simp
  have e: "hc_compute_persistence ?P ?hc None None ''pearson_r''
             = hc_compute_persistence ?P ?hc None (Some 7) ''pearson_r''"
    using th [THEN conjunct2, THEN conjunct2, rule_format, of None None "Some 7"] .
  from l lead a b c d e show ?thesis by (intro conjI)
qed

section \<open>The variables to drop\<close>

lemma index_pop:
  "x \<in> set xs \<Longrightarrow> \<exists>i. index xs x = Inr i \<and> pop xs i = remove1 x xs"
proof (induction xs)
  case Nil
  then show ?case by simp
next
  case (Cons y ys)
  show ?case
  proof (cases "y = x")
    case True
    then show ?thesis by (simp add: pop_def)
  next
    case False
    then have "x \<in> set ys" using Cons.prems by simp
    then obtain i where "index ys x = Inr i" "pop ys i = remove1 x ys"
      using Cons.IH by blast
    then show ?thesis using False by (simp add: pop_def)
  qed
qed

lemma remove1_as_filter: "distinct xs \<Longrightarrow> remove1 x xs = filter (\<lambda>v. v \<noteq> x) xs"
  by (simp add: distinct_remove1_removeAll removeAll_filter_not_eq) (metis (mono_tags, lifting) filter_cong)

lemma pop_common_filters:
  assumes "distinct order" "set order \<subseteq> set init_vars" "set order \<subseteq> set ref_vars"
    "distinct init_vars" "distinct ref_vars"
  shows "pop_common order init_vars ref_vars
           = Inr (filter (\<lambda>v. v \<notin> set order) init_vars, filter (\<lambda>v. v \<notin> set order) ref_vars)"
  using assms
proof (induction order arbitrary: init_vars ref_vars)
  case Nil
  then show ?case by simp
next
  case (Cons var rest)
  obtain i where i: "index init_vars var = Inr i" "pop init_vars i = remove1 var init_vars"
    using Cons.prems(2) index_pop [of var init_vars] by auto
  obtain j where j: "index ref_vars var = Inr j" "pop ref_vars j = remove1 var ref_vars"
    using Cons.prems(3) index_pop [of var ref_vars] by auto
  have fresh: "var \<notin> set rest" and rest: "distinct rest" using Cons.prems(1) by simp_all
  have ih: "pop_common rest (remove1 var init_vars) (remove1 var ref_vars)
              = Inr (filter (\<lambda>v. v \<notin> set rest) (remove1 var init_vars),
                     filter (\<lambda>v. v \<notin> set rest) (remove1 var ref_vars))"
  proof (rule Cons.IH [OF rest])
    show "set rest \<subseteq> set (remove1 var init_vars)"
      using Cons.prems(2,4) fresh by auto
    show "set rest \<subseteq> set (remove1 var ref_vars)"
      using Cons.prems(3,5) fresh by auto
    show "distinct (remove1 var init_vars)" using Cons.prems(4) by simp
    show "distinct (remove1 var ref_vars)" using Cons.prems(5) by simp
  qed
  have a: "filter (\<lambda>v. v \<notin> set rest) (remove1 var init_vars)
             = filter (\<lambda>v. v \<notin> set (var # rest)) init_vars"
    by (simp add: remove1_as_filter [OF Cons.prems(4)] conj_commute)
  have b: "filter (\<lambda>v. v \<notin> set rest) (remove1 var ref_vars)
             = filter (\<lambda>v. v \<notin> set (var # rest)) ref_vars"
    by (simp add: remove1_as_filter [OF Cons.prems(5)] conj_commute)
  show ?case
    by (simp only: pop_common.simps i j sum.case Let_def ih a b)
qed

lemma pop_common_intersection:
  assumes "enumerates order (set ref_vars \<inter> set init_vars)"
    and "distinct init_vars" and "distinct ref_vars"
  shows "pop_common order init_vars ref_vars
           = Inr (filter (\<lambda>v. v \<notin> set ref_vars) init_vars,
                  filter (\<lambda>v. v \<notin> set init_vars) ref_vars)"
proof -
  have d: "distinct order" and s: "set order = set ref_vars \<inter> set init_vars"
    using assms(1) by (simp_all add: enumerates_def)
  have "pop_common order init_vars ref_vars
          = Inr (filter (\<lambda>v. v \<notin> set order) init_vars, filter (\<lambda>v. v \<notin> set order) ref_vars)"
    using d s assms(2,3) by (intro pop_common_filters) auto
  moreover have "filter (\<lambda>v. v \<notin> set order) init_vars = filter (\<lambda>v. v \<notin> set ref_vars) init_vars"
    unfolding s by (rule filter_cong) auto
  moreover have "filter (\<lambda>v. v \<notin> set order) ref_vars = filter (\<lambda>v. v \<notin> set init_vars) ref_vars"
    unfolding s by (rule filter_cong) auto
  ultimately show ?thesis by simp
qed

text \<open>
  Claim C5. For every \<open>HindcastEnsemble\<close>, every stored reference name and both settings
  of \<open>init\<close>, \<^verbatim>\<open>_vars_to_drop\<close> returns two lists: the variables of the initialized
  dataset (of the uninitialized dataset when \<open>init\<close> is false) that the reference lacks,
  and the variables of the reference that the chosen dataset lacks, each in the order of
  its dataset, in whatever order Python iterates over the set of shared names. As sets
  they are the two differences of the sets of names. (Variable names are keys of a
  mapping: no dataset has one twice.)
\<close>

theorem vars_to_drop_partition:
  assumes "map_of (reference hc) ref = Some r" and "distinct (var_names r)"
  shows "(distinct (var_names (initialized hc))
          \<and> enumerates (iter (set (var_names r) \<inter> set (var_names (initialized hc))))
                (set (var_names r) \<inter> set (var_names (initialized hc))) \<longrightarrow>
            vars_to_drop iter hc ref True
              = Inr (filter (\<lambda>v. v \<notin> set (var_names r)) (var_names (initialized hc)),
                     filter (\<lambda>v. v \<notin> set (var_names (initialized hc))) (var_names r))
          \<and> (\<exists>drop_init drop_ref. vars_to_drop iter hc ref True = Inr (drop_init, drop_ref)
                \<and> set drop_init = set (var_names (initialized hc)) - set (var_names r)
                \<and> set drop_ref = set (var_names r) - set (var_names (initialized hc))))
       \<and> (\<forall>u. uninitialized hc = Stored u \<and> distinct (var_names u)
               \<and> enumerates (iter (set (var_names r) \<inter> set (var_names u)))
                    (set (var_names r) \<inter> set (var_names u)) \<longrightarrow>
            vars_to_drop iter hc ref False
              = Inr (filter (\<lambda>v. v \<notin> set (var_names r)) (var_names u),
                     filter (\<lambda>v. v \<notin> set (var_names u)) (var_names r))
          \<and> (\<exists>drop_un drop_ref. vars_to_drop iter hc ref False = Inr (drop_un, drop_ref)
                \<and> set drop_un = set (var_names u) - set (var_names r)
                \<and> set drop_ref = set (var_names r) - set (var_names u)))"
proof (intro conjI impI allI)
  assume a: "distinct (var_names (initialized hc))
          \<and> enumerates (iter (set (var_names r) \<inter> set (var_names (initialized hc))))
                (set (var_names r) \<inter> set (var_names (initialized hc)))"
  show e: "vars_to_drop iter hc ref True
              = Inr (filter (\<lambda>v. v \<notin> set (var_names r)) (var_names (initialized hc)),
                     filter (\<lambda>v. v \<notin> set (var_names (initialized hc))) (var_names r))"
    using a assms by (simp add: vars_to_drop_def Let_def pop_common_intersection)
  show "\<exists>drop_init drop_ref. vars_to_drop iter hc ref True = Inr (drop_init, drop_ref)
                \<and> set drop_init = set (var_names (initialized hc)) - set (var_names r)
                \<and> set drop_ref = set (var_names r) - set (var_names (initialized hc))"
    unfolding e by auto
next
  fix u
  assume a: "uninitialized hc = Stored u \<and> distinct (var_names u)
               \<and> enumerates (iter (set (var_names r) \<inter> set (var_names u)))
                    (set (var_names r) \<inter> set (var_names u))"
  show e: "vars_to_drop iter hc ref False
              = Inr (filter (\<lambda>v. v \<notin> set (var_names r)) (var_names u),
                     filter (\<lambda>v. v \<notin> set (var_names u)) (var_names r))"
    using a assms by (simp add: vars_to_drop_def Let_def pop_common_intersection)
  show "\<exists>drop_un drop_ref. vars_to_drop iter hc ref False = Inr (drop_un, drop_ref)
                \<and> set drop_un = set (var_names u) - set (var_names r)
                \<and> set drop_ref = set (var_names r) - set (var_names u)"
    unfolding e by auto
qed


theorem vars_to_drop_partition_witness:
  "map_of (reference \<lparr>initialized = hindcast, uninitialized = Stored observations,
                      reference = [(''obs'', observations), (''recon'', reconstruction)]\<rparr>)
     ''obs'' = Some observations
   \<and> distinct (var_names observations) \<and> distinct (var_names hindcast)
   \<and> enumerates (listed (set (var_names observations) \<inter> set (var_names hindcast)))
        (set (var_names observations) \<inter> set (var_names hindcast))
   \<and> vars_to_drop listed
        \<lparr>initialized = hindcast, uninitialized = Stored observations,
          reference = [(''obs'', observations), (''recon'', reconstruction)]\<rparr> ''obs'' True
      = Inr ([''SALT''], [])
   \<and> vars_to_drop listed
        \<lparr>initialized = hindcast, uninitialized = Stored observations,
          reference = [(''obs'', observations), (''recon'', reconstruction)]\<rparr> ''recon'' False
      = Inr ([], [''SALT''])"
proof -
  let ?hc = "\<lparr>initialized = hindcast, uninitialized = Stored observations,
              reference = [(''obs'', observations), (''recon'', reconstruction)]\<rparr>"
  have obs: "map_of (reference ?hc) ''obs'' = Some observations" by simp
  have recon: "map_of (reference ?hc) ''recon'' = Some reconstruction" by simp
  have d: "distinct (var_names observations)" "distinct (var_names hindcast)"
    "distinct (var_names reconstruction)"
    by (simp_all add: var_names_samples)
  have e1: "enumerates (listed (set (var_names observations) \<inter> set (var_names hindcast)))
              (set (var_names observations) \<inter> set (var_names hindcast))"
    by (simp add: var_names_samples enumerates_def listed_def)
  have e2: "enumerates (listed (set (var_names reconstruction) \<inter> set (var_names observations)))
              (set (var_names reconstruction) \<inter> set (var_names observations))"
    by (simp add: var_names_samples enumerates_def listed_def)
  have h1: "distinct (var_names (initialized ?hc))
          \<and> enumerates (listed (set (var_names observations) \<inter> set (var_names (initialized ?hc))))
                (set (var_names observations) \<inter> set (var_names (initialized ?hc)))"
    using d e1 by simp
  have h2: "uninitialized ?hc = Stored observations \<and> distinct (var_names observations)
               \<and> enumerates (listed (set (var_names reconstruction) \<inter> set (var_names observations)))
                    (set (var_names reconstruction) \<inter> set (var_names observations))"
    using d e2 by simp
  have a: "vars_to_drop listed ?hc ''obs'' True = Inr ([''SALT''], [])"
    using vars_to_drop_partition [OF obs d(1), of listed, THEN conjunct1, rule_format, OF h1,
            THEN conjunct1]
    by (simp add: var_names_samples)
  have b: "vars_to_drop listed ?hc ''recon'' False = Inr ([], [''SALT''])"
    using vars_to_drop_partition [OF recon d(3), of listed, THEN conjunct2, rule_format, OF h2,
            THEN conjunct1]
    by (simp add: var_names_samples)
  from obs d(1,2) e1 a b show ?thesis by (intro conjI)
qed

section \<open>compute_metric on a hindcast\<close>

lemma drop_vars_missing:
  "drop_vars ds (filter (\<lambda>v. v \<notin> S) (var_names ds))
     = Inr (without ds (filter (\<lambda>v. v \<notin> S) (var_names ds)))"
proof -
  have "list_all (\<lambda>l. l \<in> set (variable_names ds)) (filter (\<lambda>v. v \<notin> S) (var_names ds))"
    by (simp add: list_all_iff variable_names_def)
  then show ?thesis by (simp add: drop_vars_def)
qed

lemma data_vars_without_missing:
  "data_vars (without ds (filter (\<lambda>v. v \<notin> S) (var_names ds)))
     = filter (\<lambda>(k, v). k \<in> S) (data_vars ds)"
proof -
  have "filter (\<lambda>(k, v). k \<notin> set (filter (\<lambda>v. v \<notin> S) (var_names ds))) (data_vars ds)
          = filter (\<lambda>(k, v). k \<in> S) (data_vars ds)"
  proof (rule filter_cong)
    fix e assume e: "e \<in> set (data_vars ds)"
    then have "fst e \<in> set (var_names ds)" by (simp add: var_names_def)
    then show "(case e of (k, v) \<Rightarrow> k \<notin> set (filter (\<lambda>v. v \<notin> S) (var_names ds)))
                 = (case e of (k, v) \<Rightarrow> k \<in> S)"
      by (cases e) simp
  qed simp
  then show ?thesis by (simp add: without_def Let_def)
qed

lemma var_names_without_missing:
  "var_names (without ds (filter (\<lambda>v. v \<notin> S) (var_names ds)))
     = filter (\<lambda>v. v \<in> S) (var_names ds)"
proof -
  have "map fst (filter (\<lambda>(k, v). k \<in> S) (data_vars ds))
          = filter (\<lambda>v. v \<in> S) (map fst (data_vars ds))"
    by (induction "data_vars ds" arbitrary: ds) (auto simp: filter_map comp_def split_def)
  then show ?thesis
    by (simp only: var_names_def [of "without ds (filter (\<lambda>v. v \<notin> S) (var_names ds))"]
          data_vars_without_missing var_names_def [of ds, symmetric])
qed

lemma metric_for_shared:
  assumes "map_of (reference hc) name = Some r" and "distinct (var_names r)"
    and "distinct (var_names (initialized hc))"
    and "enumerates (iter (set (var_names r) \<inter> set (var_names (initialized hc))))
           (set (var_names r) \<inter> set (var_names (initialized hc)))"
  shows "metric_for iter E hc metric comparison name
           = E (without (initialized hc)
                  (filter (\<lambda>v. v \<notin> set (var_names r)) (var_names (initialized hc))))
               (without r
                  (filter (\<lambda>v. v \<notin> set (var_names (initialized hc))) (var_names r)))
               metric comparison"
proof -
  have "vars_to_drop iter hc name True
          = Inr (filter (\<lambda>v. v \<notin> set (var_names r)) (var_names (initialized hc)),
                 filter (\<lambda>v. v \<notin> set (var_names (initialized hc))) (var_names r))"
    using assms by (simp add: vars_to_drop_def Let_def pop_common_intersection)
  then show ?thesis
    by (simp add: metric_for_def assms(1) drop_vars_missing)
qed

lemma hc_compute_metric_named:
  "reference hc \<noteq> [] \<Longrightarrow>
   hc_compute_metric iter E hc (Some name) metric comparison
     = single (metric_for iter E hc metric comparison name)"
  by (simp add: hc_compute_metric_def Let_def)

lemma hc_compute_metric_all:
  "2 \<le> length (reference hc) \<Longrightarrow>
   hc_compute_metric iter E hc None metric comparison
     = results (collect (metric_for iter E hc metric comparison) (map fst (reference hc)) [])"
  by (auto simp: hc_compute_metric_def Let_def)

lemma single_Result: "single x = Inr (Result y) \<longleftrightarrow> x = Inr y"
  by (cases x) auto

lemma single_Inl: "single x = Inl e \<longleftrightarrow> x = Inl e"
  by (cases x) auto

lemma single_not_Results: "single x \<noteq> Inr (Results d)"
  by (cases x) auto

lemma map_of_tabulated: "k \<in> set ks \<Longrightarrow> map_of (map (\<lambda>k. (k, g k)) ks) k = Some (g k)"
  by (induction ks) auto

text \<open>
  Claim C1. On a \<open>HindcastEnsemble\<close>, \<^verbatim>\<open>compute_metric\<close> raises \<open>DatasetError\<close> when the
  reference mapping is empty. Without \<open>refname\<close> and with exactly one reference it
  returns what it returns when called with that reference's name, which is one result
  and never a dictionary. With two or more references (and the engine returning for
  each) it returns a dictionary whose keys are the reference names, in their order, the
  value under a name being the result of the call with that name; an exception of such
  a call is the exception of the whole call. Called with the name of a stored reference
  it returns the engine's result on the initialized dataset and the reference, each as
  \<^verbatim>\<open>drop\<close> leaves it without the data variables the other lacks: its data variables are
  those the other has too.
\<close>

theorem compute_metric_by_references:
  "(reference hc = [] \<longrightarrow>
       hc_compute_metric iter E hc refname metric comparison = Inl DatasetError)
   \<and> (\<forall>name r. reference hc = [(name, r)] \<longrightarrow>
         hc_compute_metric iter E hc None metric comparison
           = hc_compute_metric iter E hc (Some name) metric comparison
       \<and> (\<forall>d. hc_compute_metric iter E hc None metric comparison \<noteq> Inr (Results d)))
   \<and> (2 \<le> length (reference hc) \<and> distinct (map fst (reference hc))
        \<and> (\<forall>name \<in> set (map fst (reference hc)).
              \<exists>x. hc_compute_metric iter E hc (Some name) metric comparison = Inr (Result x)) \<longrightarrow>
       (\<exists>d. hc_compute_metric iter E hc None metric comparison = Inr (Results d)
           \<and> map fst d = map fst (reference hc)
           \<and> (\<forall>name \<in> set (map fst (reference hc)).
                 \<exists>x. map_of d name = Some x
                   \<and> hc_compute_metric iter E hc (Some name) metric comparison = Inr (Result x))))
   \<and> (\<forall>e. 2 \<le> length (reference hc)
          \<and> hc_compute_metric iter E hc None metric comparison = Inl e \<longrightarrow>
       (\<exists>name \<in> set (map fst (reference hc)).
           hc_compute_metric iter E hc (Some name) metric comparison = Inl e))
   \<and> (\<forall>name r. map_of (reference hc) name = Some r
          \<and> distinct (var_names r) \<and> distinct (var_names (initialized hc))
          \<and> enumerates (iter (set (var_names r) \<inter> set (var_names (initialized hc))))
               (set (var_names r) \<inter> set (var_names (initialized hc))) \<longrightarrow>
       hc_compute_metric iter E hc (Some name) metric comparison
         = single (E (without (initialized hc)
                  (filter (\<lambda>v. v \<notin> set (var_names r)) (var_names (initialized hc))))
               (without r
                  (filter (\<lambda>v. v \<notin> set (var_names (initialized hc))) (var_names r)))
               metric comparison))
   \<and> (\<forall>ds S. data_vars (without ds (filter (\<lambda>v. v \<notin> S) (var_names ds)))
                = filter (\<lambda>(k, v). k \<in> S) (data_vars ds))"
proof (intro conjI impI allI)
  assume "reference hc = []"
  then show "hc_compute_metric iter E hc refname metric comparison = Inl DatasetError"
    by (simp add: hc_compute_metric_def)
next
  fix name r d
  assume one: "reference hc = [(name, r)]"
  show "hc_compute_metric iter E hc None metric comparison
          = hc_compute_metric iter E hc (Some name) metric comparison"
    by (simp add: hc_compute_metric_def one Let_def)
  show "hc_compute_metric iter E hc None metric comparison \<noteq> Inr (Results d)"
    by (simp add: hc_compute_metric_def one Let_def single_not_Results)
next
  let ?f = "metric_for iter E hc metric comparison"
  let ?keys = "map fst (reference hc)"
  assume a: "2 \<le> length (reference hc) \<and> distinct ?keys
        \<and> (\<forall>name \<in> set ?keys.
              \<exists>x. hc_compute_metric iter E hc (Some name) metric comparison = Inr (Result x))"
  then have ne: "reference hc \<noteq> []" by auto
  have ok: "\<forall>k \<in> set ?keys. ?f k = Inr (projr (?f k))"
  proof
    fix k assume "k \<in> set ?keys"
    then obtain x where "single (?f k) = Inr (Result x)"
      using a hc_compute_metric_named [OF ne] by metis
    then show "?f k = Inr (projr (?f k))" by (simp add: single_Result)
  qed
  have c: "collect ?f ?keys [] = Inr ([] @ map (\<lambda>k. (k, projr (?f k))) ?keys)"
    using a ok by (intro collect_returns) simp_all
  let ?d = "map (\<lambda>k. (k, projr (?f k))) ?keys"
  have 1: "hc_compute_metric iter E hc None metric comparison = Inr (Results ?d)"
    using a c by (simp add: hc_compute_metric_all results_def)
  have 2: "map fst ?d = ?keys" by (simp add: comp_def)
  have 3: "\<forall>name \<in> set ?keys. \<exists>x. map_of ?d name = Some x
             \<and> hc_compute_metric iter E hc (Some name) metric comparison = Inr (Result x)"
  proof
    fix name assume n: "name \<in> set ?keys"
    have "map_of ?d name = Some (projr (?f name))" using n by (rule map_of_tabulated)
    moreover have "?f name = Inr (projr (?f name))" using ok n by blast
    then have "hc_compute_metric iter E hc (Some name) metric comparison
                     = Inr (Result (projr (?f name)))"
      by (simp only: hc_compute_metric_named [OF ne] single_Result)
    ultimately show "\<exists>x. map_of ?d name = Some x
             \<and> hc_compute_metric iter E hc (Some name) metric comparison = Inr (Result x)"
      by blast
  qed
  from 1 2 3 show "\<exists>d. hc_compute_metric iter E hc None metric comparison = Inr (Results d)
           \<and> map fst d = ?keys
           \<and> (\<forall>name \<in> set ?keys.
                 \<exists>x. map_of d name = Some x
                   \<and> hc_compute_metric iter E hc (Some name) metric comparison = Inr (Result x))"
    by blast
next
  fix e
  assume a: "2 \<le> length (reference hc)
          \<and> hc_compute_metric iter E hc None metric comparison = Inl e"
  then have ne: "reference hc \<noteq> []" by auto
  have "results (collect (metric_for iter E hc metric comparison) (map fst (reference hc)) [])
          = Inl e"
    using a hc_compute_metric_all [of hc iter E metric comparison] by simp
  then have "collect (metric_for iter E hc metric comparison) (map fst (reference hc)) [] = Inl e"
    by (cases "collect (metric_for iter E hc metric comparison) (map fst (reference hc)) []")
       (simp_all add: results_def)
  then obtain k where "k \<in> set (map fst (reference hc))"
    and "metric_for iter E hc metric comparison k = Inl e"
    using collect_raises by blast
  then show "\<exists>name \<in> set (map fst (reference hc)).
           hc_compute_metric iter E hc (Some name) metric comparison = Inl e"
    using hc_compute_metric_named [OF ne] by (metis single.simps(1))
next
  fix name r
  assume a: "map_of (reference hc) name = Some r
          \<and> distinct (var_names r) \<and> distinct (var_names (initialized hc))
          \<and> enumerates (iter (set (var_names r) \<inter> set (var_names (initialized hc))))
               (set (var_names r) \<inter> set (var_names (initialized hc)))"
  then have ne: "reference hc \<noteq> []" by auto
  show "hc_compute_metric iter E hc (Some name) metric comparison
         = single (E (without (initialized hc)
                  (filter (\<lambda>v. v \<notin> set (var_names r)) (var_names (initialized hc))))
               (without r
                  (filter (\<lambda>v. v \<notin> set (var_names (initialized hc))) (var_names r)))
               metric comparison)"
    using a by (simp add: hc_compute_metric_named [OF ne] metric_for_shared)
next
  fix ds :: "'c dataset" and S
  show "data_vars (without ds (filter (\<lambda>v. v \<notin> S) (var_names ds)))
          = filter (\<lambda>(k, v). k \<in> S) (data_vars ds)"
    by (rule data_vars_without_missing)
qed


lemma two_entries:
  assumes "map fst d = [a, b]" and "map_of d a = Some x" and "map_of d b = Some y" and "a \<noteq> b"
  shows "d = [(a, x), (b, y)]"
proof -
  obtain p q where d: "d = [p, q]" and "fst p = a" and "fst q = b"
    using assms(1) by (auto simp: map_eq_Cons_conv)
  then have "p = (a, snd p)" "q = (b, snd q)" by auto
  then show ?thesis using assms(2,3,4) d
    by (metis map_of_Cons_code(2) option.inject)
qed

theorem compute_metric_by_references_witness:
  "hc_compute_metric listed seen
     \<lparr>initialized = hindcast, uninitialized = Empty_dict, reference = []\<rparr>
     None ''pearson_r'' ''e2r'' = Inl DatasetError
   \<and> hc_compute_metric listed seen
       \<lparr>initialized = hindcast, uninitialized = Empty_dict, reference = [(''obs'', observations)]\<rparr>
       (Some ''obs'') ''pearson_r'' ''e2r'' = Inr (Result ([''SST''], [''SST'']))
   \<and> hc_compute_metric listed seen
       \<lparr>initialized = hindcast, uninitialized = Empty_dict, reference = [(''obs'', observations)]\<rparr>
       None ''pearson_r'' ''e2r'' = Inr (Result ([''SST''], [''SST'']))
   \<and> hc_compute_metric listed seen
       \<lparr>initialized = hindcast, uninitialized = Empty_dict,
         reference = [(''obs'', observations), (''recon'', reconstruction)]\<rparr>
       None ''pearson_r'' ''e2r''
      = Inr (Results [(''obs'', [''SST''], [''SST'']),
                      (''recon'', [''SST'', ''SALT''], [''SALT'', ''SST''])])"
proof -
  let ?hc0 = "\<lparr>initialized = hindcast, uninitialized = Empty_dict,
               reference = ([] :: (string \<times> unit dataset) list)\<rparr>"
  let ?hc1 = "\<lparr>initialized = hindcast, uninitialized = Empty_dict,
               reference = [(''obs'', observations)]\<rparr>"
  let ?hc2 = "\<lparr>initialized = hindcast, uninitialized = Empty_dict,
               reference = [(''obs'', observations), (''recon'', reconstruction)]\<rparr>"
  note t0 = compute_metric_by_references
              [where hc = ?hc0 and iter = listed and E = seen and refname = None
                 and metric = "''pearson_r''" and comparison = "''e2r''"]
  note t1 = compute_metric_by_references
              [where hc = ?hc1 and iter = listed and E = seen and refname = None
                 and metric = "''pearson_r''" and comparison = "''e2r''"]
  note t2 = compute_metric_by_references
              [where hc = ?hc2 and iter = listed and E = seen and refname = None
                 and metric = "''pearson_r''" and comparison = "''e2r''"]
  have e1: "enumerates (listed (set (var_names observations) \<inter> set (var_names hindcast)))
              (set (var_names observations) \<inter> set (var_names hindcast))"
    by (simp add: var_names_samples enumerates_def listed_def)
  have e2: "enumerates (listed (set (var_names reconstruction) \<inter> set (var_names hindcast)))
              (set (var_names reconstruction) \<inter> set (var_names hindcast))"
    by (simp add: var_names_samples enumerates_def listed_def)
  have s1: "seen (without hindcast
                    (filter (\<lambda>v. v \<notin> set (var_names observations)) (var_names hindcast)))
                 (without observations
                    (filter (\<lambda>v. v \<notin> set (var_names hindcast)) (var_names observations)))
                 ''pearson_r'' ''e2r'' = Inr ([''SST''], [''SST''])"
    by (simp only: seen_def var_names_without_missing) (simp add: var_names_samples)
  have s2: "seen (without hindcast
                    (filter (\<lambda>v. v \<notin> set (var_names reconstruction)) (var_names hindcast)))
                 (without reconstruction
                    (filter (\<lambda>v. v \<notin> set (var_names hindcast)) (var_names reconstruction)))
                 ''pearson_r'' ''e2r'' = Inr ([''SST'', ''SALT''], [''SALT'', ''SST''])"
    by (simp only: seen_def var_names_without_missing) (simp add: var_names_samples)
  have h1: "map_of (reference ?hc1) ''obs'' = Some observations
          \<and> distinct (var_names observations) \<and> distinct (var_names (initialized ?hc1))
          \<and> enumerates (listed (set (var_names observations) \<inter> set (var_names (initialized ?hc1))))
               (set (var_names observations) \<inter> set (var_names (initialized ?hc1)))"
    using e1 by (simp add: var_names_samples)
  have h2o: "map_of (reference ?hc2) ''obs'' = Some observations
          \<and> distinct (var_names observations) \<and> distinct (var_names (initialized ?hc2))
          \<and> enumerates (listed (set (var_names observations) \<inter> set (var_names (initialized ?hc2))))
               (set (var_names observations) \<inter> set (var_names (initialized ?hc2)))"
    using e1 by (simp add: var_names_samples)
  have h2r: "map_of (reference ?hc2) ''recon'' = Some reconstruction
          \<and> distinct (var_names reconstruction) \<and> distinct (var_names (initialized ?hc2))
          \<and> enumerates (listed (set (var_names reconstruction) \<inter> set (var_names (initialized ?hc2))))
               (set (var_names reconstruction) \<inter> set (var_names (initialized ?hc2)))"
    using e2 by (simp add: var_names_samples)
  note named = conjunct1 [OF conjunct2 [OF conjunct2 [OF conjunct2 [OF conjunct2]]]]
  have a: "hc_compute_metric listed seen ?hc0 None ''pearson_r'' ''e2r'' = Inl DatasetError"
    using t0 [THEN conjunct1] by simp
  have b: "hc_compute_metric listed seen ?hc1 (Some ''obs'') ''pearson_r'' ''e2r''
             = Inr (Result ([''SST''], [''SST'']))"
    using t1 [THEN named, rule_format, OF h1] s1 by simp
  have c: "hc_compute_metric listed seen ?hc1 None ''pearson_r'' ''e2r''
             = Inr (Result ([''SST''], [''SST'']))"
    using t1 [THEN conjunct2, THEN conjunct1, rule_format, of "''obs''" observations] b by simp
  have o: "hc_compute_metric listed seen ?hc2 (Some ''obs'') ''pearson_r'' ''e2r''
             = Inr (Result ([''SST''], [''SST'']))"
    using t2 [THEN named, rule_format, OF h2o] s1 by simp
  have r: "hc_compute_metric listed seen ?hc2 (Some ''recon'') ''pearson_r'' ''e2r''
             = Inr (Result ([''SST'', ''SALT''], [''SALT'', ''SST'']))"
    using t2 [THEN named, rule_format, OF h2r] s2 by simp
  have h3: "2 \<le> length (reference ?hc2) \<and> distinct (map fst (reference ?hc2))
        \<and> (\<forall>name \<in> set (map fst (reference ?hc2)).
              \<exists>x. hc_compute_metric listed seen ?hc2 (Some name) ''pearson_r'' ''e2r''
                     = Inr (Result x))"
    using o r by simp
  obtain d where d: "hc_compute_metric listed seen ?hc2 None ''pearson_r'' ''e2r'' = Inr (Results d)"
    and keys: "map fst d = map fst (reference ?hc2)"
    and vals: "\<forall>name \<in> set (map fst (reference ?hc2)).
                 \<exists>x. map_of d name = Some x
                   \<and> hc_compute_metric listed seen ?hc2 (Some name) ''pearson_r'' ''e2r''
                       = Inr (Result x)"
    using t2 [THEN conjunct2, THEN conjunct2, THEN conjunct1, rule_format, OF h3] by blast
  have ko: "map_of d ''obs'' = Some ([''SST''], [''SST''])"
    using vals o by auto
  have kr: "map_of d ''recon'' = Some ([''SST'', ''SALT''], [''SALT'', ''SST''])"
    using vals r by auto
  have "d = [(''obs'', [''SST''], [''SST'']), (''recon'', [''SST'', ''SALT''], [''SALT'', ''SST''])]"
  proof (rule two_entries [OF _ ko kr])
    show "map fst d = [''obs'', ''recon'']" using keys by simp
    show "''obs'' \<noteq> ''recon''" by simp
  qed
  then have e: "hc_compute_metric listed seen ?hc2 None ''pearson_r'' ''e2r''
      = Inr (Results [(''obs'', [''SST''], [''SST'']),
                      (''recon'', [''SST'', ''SALT''], [''SALT'', ''SST''])])"
    using d by simp
  from a b c e show ?thesis by (intro conjI)
qed

section \<open>bootstrap on a perfect-model ensemble\<close>

lemma add_control_control_run:
  "add_control \<lparr>initialized = hindcast, uninitialized = Empty_dict, control = Empty_dict\<rparr>
     (Dataset control_run)
   = (Inr (), \<lparr>initialized = hindcast, uninitialized = Empty_dict,
                control = Stored control_run\<rparr>)"
  by (simp add: add_control_def check_dims_hindcast_time dim_names_samples
        check_reference_vars_eq var_names_samples)

lemma getitem_samples:
  "getitem hindcast ''SST'' = Inr \<lparr>da_name = Some ''SST'',
      da_dims = [(''init'', 3), (''lead'', 2), (''member'', 4)],
      da_coords = forecast_coords, da_variable = forecast_var\<rparr>"
  "getitem hindcast ''TEMP'' = Inl (KeyError ''TEMP'')"
  "getitem control_run ''SST'' = Inr \<lparr>da_name = Some ''SST'',
      da_dims = [(''time'', 5)], da_coords = [(''time'', index_var ''time'')],
      da_variable = series_var\<rparr>"
  "getitem observations ''SST'' = Inr \<lparr>da_name = Some ''SST'',
      da_dims = [(''time'', 5)], da_coords = [(''time'', index_var ''time'')],
      da_variable = series_var\<rparr>"
  by (simp_all add: getitem_def along_def hindcast_def control_run_def observations_def
        forecast_var_def series_var_def forecast_coords_def index_var_def)

text \<open>
  Where the loop over the control's variables works and where it cannot: it returns the
  dictionary when the engine returns for every variable of the control, and it never
  returns one when the control has a variable whose name the initialized dataset does
  not know (as a variable, a coordinate or a dimension).
\<close>

lemma bootstrap_all_variables:
  assumes "control pm = Stored ctrl" and "data_vars ctrl \<noteq> []"
    and "length (data_vars (initialized pm)) \<noteq> 1" and "distinct (var_names ctrl)"
    and "\<forall>v \<in> set (var_names ctrl).
           bootstrap_var B (initialized pm) ctrl metric comparison sig iterations pers_sig v
             = Inr (g v)"
  shows "bootstrap B pm None metric comparison sig iterations pers_sig
           = Inr (Results (map (\<lambda>v. (v, g v)) (var_names ctrl)))"
proof -
  have "collect (bootstrap_var B (initialized pm) ctrl metric comparison sig iterations pers_sig)
          (var_names ctrl) [] = Inr ([] @ map (\<lambda>v. (v, g v)) (var_names ctrl))"
    using assms(4,5) by (intro collect_returns) simp_all
  then show ?thesis
    using assms(1,2,3) by (simp add: bootstrap_def Let_def results_def)
qed

lemma getitem_unknown:
  assumes "name \<notin> set (variable_names ds)" and "name \<notin> set (dim_names ds)"
  shows "getitem ds name = Inl (KeyError name)"
proof -
  have "map_of (data_vars ds @ coords ds) name = None"
    using assms(1)
    by (simp add: variable_names_def coord_names_def var_names_def map_of_eq_None_iff)
  moreover have "map_of (dims ds) name = None"
    using assms(2) by (simp add: dim_names_def map_of_eq_None_iff)
  ultimately show ?thesis by (simp only: getitem_def option.case)
qed

lemma bootstrap_variable_not_initialized:
  assumes "control pm = Stored ctrl" and "length (data_vars (initialized pm)) \<noteq> 1"
    and "v \<in> set (var_names ctrl)" and "v \<notin> set (variable_names (initialized pm))"
    and "v \<notin> set (dim_names (initialized pm))"
  shows "bootstrap B pm None metric comparison sig iterations pers_sig \<noteq> Inr (Results d)"
proof
  assume r: "bootstrap B pm None metric comparison sig iterations pers_sig = Inr (Results d)"
  let ?run = "bootstrap_var B (initialized pm) ctrl metric comparison sig iterations pers_sig"
  have "results (collect ?run (var_names ctrl) []) = Inr (Results d)"
    using r assms(1,2) by (simp add: bootstrap_def Let_def split: if_splits)
  then have "collect ?run (var_names ctrl) [] = Inr d"
    by (cases "collect ?run (var_names ctrl) []") (simp_all add: results_def)
  then obtain x where "?run v = Inr x"
    using collect_all_returned assms(3) by blast
  moreover have "getitem (initialized pm) v = Inl (KeyError v)"
    using assms(4,5) by (rule getitem_unknown)
  ultimately show False by (simp add: bootstrap_var_def)
qed

text \<open>
  Claim C3, where the code departs from it. The initialized dataset has the variables
  \<open>SST\<close> and \<open>SALT\<close>; the control has \<open>SST\<close> and \<open>TEMP\<close>, and \<^verbatim>\<open>add_control\<close> accepts
  it, one shared variable being enough. \<^verbatim>\<open>bootstrap\<close> without \<open>var\<close> then loops over the
  control's variables, runs the engine for \<open>SST\<close>, and raises \<open>KeyError\<close> at
  \<^verbatim>\<open>self.initialized['TEMP']\<close>: no dictionary keyed by the control's variable names is
  returned. With a control of the one variable \<open>SST\<close> the same call returns the
  dictionary.
\<close>

theorem bootstrap_control_only_variable:
  "add_control \<lparr>initialized = hindcast, uninitialized = Empty_dict, control = Empty_dict\<rparr>
     (Dataset control_run)
     = (Inr (), \<lparr>initialized = hindcast, uninitialized = Empty_dict,
                  control = Stored control_run\<rparr>)
   \<and> var_names control_run = [''SST'', ''TEMP'']
   \<and> bootstrap (\<lambda>i c metric comparison sig iterations pers_sig. Inr (da_name i, da_name c))
        \<lparr>initialized = hindcast, uninitialized = Empty_dict, control = Stored control_run\<rparr>
        None ''pearson_r'' ''m2e'' 95 500 None
     = Inl (KeyError ''TEMP'')
   \<and> bootstrap (\<lambda>i c metric comparison sig iterations pers_sig. Inr (da_name i, da_name c))
        \<lparr>initialized = hindcast, uninitialized = Empty_dict, control = Stored observations\<rparr>
        None ''pearson_r'' ''m2e'' 95 500 None
     = Inr (Results [(''SST'', Some ''SST'', Some ''SST'')])"
proof -
  have a: "bootstrap (\<lambda>i c metric comparison sig iterations pers_sig. Inr (da_name i, da_name c))
        \<lparr>initialized = hindcast, uninitialized = Empty_dict, control = Stored control_run\<rparr>
        None ''pearson_r'' ''m2e'' 95 500 None
     = Inl (KeyError ''TEMP'')"
    by (simp add: bootstrap_def Let_def bootstrap_var_def getitem_samples var_names_samples
          results_def)
       (simp add: hindcast_def control_run_def)
  have b: "bootstrap (\<lambda>i c metric comparison sig iterations pers_sig. Inr (da_name i, da_name c))
        \<lparr>initialized = hindcast, uninitialized = Empty_dict, control = Stored observations\<rparr>
        None ''pearson_r'' ''m2e'' 95 500 None
     = Inr (Results [(''SST'', Some ''SST'', Some ''SST'')])"
    by (simp add: bootstrap_def Let_def bootstrap_var_def getitem_samples var_names_samples
          results_def)
       (simp add: hindcast_def observations_def)
  from add_control_control_run var_names_samples(5) a b show ?thesis by (intro conjI)
qed

end
